theory Spec2Isabelle
  imports Main
begin

section \<open>The editor's positions, ranges and text documents\<close>

text \<open>
  The extension works on \<^verbatim>\<open>vscode.Position\<close>, \<^verbatim>\<open>vscode.Range\<close> and
  \<^verbatim>\<open>vscode.TextDocument\<close>. A position is a line and a character, both counted from 0.
  A document is its text; the model reads it as ASCII with LF line breaks, one \<open>char\<close>
  per UTF-16 code unit of the editor.
\<close>

datatype Position = Position (line: nat) (character: nat)

definition isBefore :: "Position \<Rightarrow> Position \<Rightarrow> bool" where
  "isBefore p q = (line p < line q \<or> (line p = line q \<and> character p < character q))"

definition isBeforeOrEqual :: "Position \<Rightarrow> Position \<Rightarrow> bool" where
  "isBeforeOrEqual p q = (line p < line q \<or> (line p = line q \<and> character p \<le> character q))"

definition isAfter :: "Position \<Rightarrow> Position \<Rightarrow> bool" where
  "isAfter p q = (\<not> isBeforeOrEqual p q)"

text \<open>\<^verbatim>\<open>position.translate(lineDelta, characterDelta)\<close>, for the deltas the sources use (none negative).\<close>

definition translate :: "Position \<Rightarrow> nat \<Rightarrow> nat \<Rightarrow> Position" where
  "translate p dl dc = Position (line p + dl) (character p + dc)"

datatype Range = Range (start: Position) (end': Position)

text \<open>\<^verbatim>\<open>new vscode.Range(a, b)\<close> orders its two ends.\<close>

definition newRange :: "Position \<Rightarrow> Position \<Rightarrow> Range" where
  "newRange a b = (if isBefore b a then Range b a else Range a b)"

text \<open>\<^verbatim>\<open>range.contains(other)\<close> for a range argument.\<close>

definition containsPosition :: "Range \<Rightarrow> Position \<Rightarrow> bool" where
  "containsPosition r p = (isBeforeOrEqual (start r) p \<and> isBeforeOrEqual p (end' r))"

definition contains :: "Range \<Rightarrow> Range \<Rightarrow> bool" where
  "contains r other = (containsPosition r (start other) \<and> containsPosition r (end' other))"

datatype TextDocument = TextDocument (doc_uri: string) (doc_text: string)

definition LF :: char where
  "LF = CHR 0x0A"

text \<open>JavaScript's \<^verbatim>\<open>\s\<close> on ASCII text: space, tab, line feed, vertical tab, form feed, carriage return.\<close>

definition isWhitespace :: "char \<Rightarrow> bool" where
  "isWhitespace c = (c = CHR '' '' \<or> c = CHR 0x09 \<or> c = CHR 0x0A \<or> c = CHR 0x0B \<or> c = CHR 0x0C \<or> c = CHR 0x0D)"

text \<open>\<^verbatim>\<open>document.positionAt(offset)\<close>: an offset past the end is clamped to the end.\<close>

fun positionAt_from :: "Position \<Rightarrow> string \<Rightarrow> nat \<Rightarrow> Position" where
  "positionAt_from p [] n = p"
| "positionAt_from p (c # cs) 0 = p"
| "positionAt_from p (c # cs) (Suc n) =
     positionAt_from (if c = LF then Position (Suc (line p)) 0 else Position (line p) (Suc (character p))) cs n"

definition positionAt :: "TextDocument \<Rightarrow> nat \<Rightarrow> Position" where
  "positionAt doc offset = positionAt_from (Position 0 0) (doc_text doc) offset"

text \<open>
  \<^verbatim>\<open>document.offsetAt(position)\<close>: the position is validated first, a character past the
  end of its line is clamped to the line's end and a line past the last one to the end of
  the text.
\<close>

fun offsetAt_in :: "string \<Rightarrow> nat \<Rightarrow> nat \<Rightarrow> nat" where
  "offsetAt_in [] l c = 0"
| "offsetAt_in (x # xs) 0 0 = 0"
| "offsetAt_in (x # xs) 0 (Suc c) = (if x = LF then 0 else Suc (offsetAt_in xs 0 c))"
| "offsetAt_in (x # xs) (Suc l) c = (if x = LF then Suc (offsetAt_in xs l c) else Suc (offsetAt_in xs (Suc l) c))"

definition offsetAt :: "TextDocument \<Rightarrow> Position \<Rightarrow> nat" where
  "offsetAt doc p = offsetAt_in (doc_text doc) (line p) (character p)"

text \<open>\<^verbatim>\<open>document.getText(range)\<close>: the text between the validated ends of the range.\<close>

definition getText :: "TextDocument \<Rightarrow> Range \<Rightarrow> string" where
  "getText doc r =
     (let s = offsetAt doc (start r); e = offsetAt doc (end' r)
      in take (e - s) (drop s (doc_text doc)))"

fun splitLines :: "string \<Rightarrow> string list" where
  "splitLines [] = [[]]"
| "splitLines (c # cs) =
     (if c = LF then [] # splitLines cs
      else (case splitLines cs of [] \<Rightarrow> [[c]] | l # ls \<Rightarrow> (c # l) # ls))"

definition lineCount :: "TextDocument \<Rightarrow> nat" where
  "lineCount doc = length (splitLines (doc_text doc))"

text \<open>A \<^verbatim>\<open>vscode.TextLine\<close>: its number and its text without the line break.\<close>

datatype TextLine = TextLine (lineNumber: nat) (line_text: string)

definition line_range :: "TextLine \<Rightarrow> Range" where
  "line_range l = Range (Position (lineNumber l) 0) (Position (lineNumber l) (length (line_text l)))"

definition firstNonWhitespaceCharacterIndex :: "TextLine \<Rightarrow> nat" where
  "firstNonWhitespaceCharacterIndex l = length (takeWhile isWhitespace (line_text l))"

definition isEmptyOrWhitespace :: "TextLine \<Rightarrow> bool" where
  "isEmptyOrWhitespace l = (firstNonWhitespaceCharacterIndex l = length (line_text l))"

text \<open>\<^verbatim>\<open>document.lineAt(i)\<close> throws for a line the document does not have: \<open>None\<close>.\<close>

definition lineAt :: "TextDocument \<Rightarrow> nat \<Rightarrow> TextLine option" where
  "lineAt doc i =
     (if i < lineCount doc then Some (TextLine i (splitLines (doc_text doc) ! i)) else None)"

subsection \<open>The end of a statement\<close>

lemma getText_semicolon_advances:
  assumes "getText doc (newRange p (translate p 0 (Suc 0))) = '';''"
  shows "length (doc_text doc) - offsetAt doc (translate p 0 (Suc 0)) < length (doc_text doc) - offsetAt doc p"
proof -
  have r: "newRange p (translate p 0 (Suc 0)) = Range p (translate p 0 (Suc 0))"
    by (simp add: newRange_def translate_def isBefore_def)
  define s where "s = offsetAt doc p"
  define e where "e = offsetAt doc (translate p 0 (Suc 0))"
  from assms r have t: "take (e - s) (drop s (doc_text doc)) = '';''"
    by (simp add: getText_def s_def e_def Let_def)
  then have "length (take (e - s) (drop s (doc_text doc))) = 1"
    by simp
  then have "s < e" "s < length (doc_text doc)"
    by (auto simp: min_def split: if_splits)
  then show ?thesis
    unfolding s_def e_def by arith
qed

text \<open>
  \<^verbatim>\<open>SourceDocument.getEndOfStatement\<close> (SourceDocument.ts, lines 266 to 274): while the
  character at the position is a semicolon, step over it.
\<close>

function getEndOfStatement :: "TextDocument \<Rightarrow> Position \<Rightarrow> Position" where
  "getEndOfStatement doc position =
     (let nextPosition = translate position 0 1
      in if getText doc (newRange position nextPosition) = '';''
         then getEndOfStatement doc nextPosition
         else position)"
  by pat_completeness auto
termination
  by (relation "measure (\<lambda>(doc, p). length (doc_text doc) - offsetAt doc p)")
     (auto dest: getText_semicolon_advances)

declare getEndOfStatement.simps [simp del]


section \<open>Symbols\<close>

text \<open>\<^verbatim>\<open>vscode.SymbolKind\<close>.\<close>

datatype SymbolKind =
    File | Module | Namespace | Package | Class | Method | Property | Field | Constructor
  | Enum | Interface | Function | Variable | Constant | String | Number | Boolean | Array
  | Object | Key | Null | EnumMember | Struct | Event | Operator | TypeParameter

text \<open>\<^verbatim>\<open>vscode.DocumentSymbol\<close>, what the document-symbol provider reports.\<close>

datatype DocumentSymbol =
  DocumentSymbol (ds_name: string) (ds_detail: string) (ds_kind: SymbolKind)
    (ds_range: Range) (ds_selectionRange: Range) (ds_children: "DocumentSymbol list")

text \<open>
  \<^verbatim>\<open>SourceSymbol\<close> (the class at the end of ProposedPosition.ts). In the sources a child
  refers to its parent and the parent to the array of its children: a cycle of references,
  which no value of a datatype holds. The model cuts the cycle inside the array. In the
  last field, \<open>childrenArray\<close>, a child that the constructor made has in the place of its
  parent the symbol with an empty array, which stands for the reference back to the symbol
  that holds the array. Reading the property \<^verbatim>\<open>children\<close> is the function \<open>children\<close> below,
  which puts the symbol itself in that place.
\<close>

datatype SourceSymbol =
  SourceSymbol (uri: string) (name: string) (detail: string) (kind: SymbolKind)
    (range': Range) (selectionRange: Range) (signature: string)
    (parent: "SourceSymbol option") (childrenArray: "SourceSymbol list")

fun withParent :: "SourceSymbol option \<Rightarrow> SourceSymbol \<Rightarrow> SourceSymbol" where
  "withParent p (SourceSymbol u n d k r sr sg par cs) = SourceSymbol u n d k r sr sg p cs"

text \<open>
  \<^verbatim>\<open>symbol.children\<close>: the children of a symbol, each with the symbol as its parent. A
  parent reference that the array holds open, one to a symbol without children, stands for
  the symbol the array belongs to, and the symbol is put there. A parent that has children
  is a reference to another object and stays: the children of a CSymbol are the children
  of the SourceSymbol it was made of, and that SourceSymbol is their parent.
\<close>

definition children :: "SourceSymbol \<Rightarrow> SourceSymbol list" where
  "children s =
     map (\<lambda>c. case parent c of
                 None \<Rightarrow> c
               | Some p \<Rightarrow> if childrenArray p = [] then withParent (Some s) c else c)
       (childrenArray s)"

definition isClassOrStruct :: "SourceSymbol \<Rightarrow> bool" where
  "isClassOrStruct s = (kind s = Class \<or> kind s = Struct)"

definition isFunction :: "SourceSymbol \<Rightarrow> bool" where
  "isFunction s = (kind s = Operator \<or> kind s = Method \<or> kind s = Constructor \<or> kind s = Function)"

definition isMemberVariable :: "SourceSymbol \<Rightarrow> bool" where
  "isMemberVariable s =
     ((case parent s of None \<Rightarrow> False | Some p \<Rightarrow> isClassOrStruct p)
      \<and> (kind s = Field \<or> kind s = Property))"

definition isVariable :: "SourceSymbol \<Rightarrow> bool" where
  "isVariable s = (kind s = Variable \<or> isMemberVariable s)"

definition mightBeTypedefOrTypeAlias :: "SourceSymbol \<Rightarrow> bool" where
  "mightBeTypedefOrTypeAlias s = (kind s = Interface \<or> kind s = Class \<or> kind s = Property)"

text \<open>\<^verbatim>\<open>scopes()\<close>: the ancestors, the top-most first.\<close>

fun ancestors :: "SourceSymbol \<Rightarrow> SourceSymbol list" where
  "ancestors (SourceSymbol u n d k r sr sg None cs) = []"
| "ancestors (SourceSymbol u n d k r sr sg (Some p) cs) = p # ancestors p"

definition scopes :: "SourceSymbol \<Rightarrow> SourceSymbol list" where
  "scopes s = rev (ancestors s)"

subsection \<open>Sorting the children\<close>

text \<open>\<^verbatim>\<open>String.prototype.includes\<close>.\<close>

definition startsWith :: "string \<Rightarrow> string \<Rightarrow> bool" where
  "startsWith s p = (take (length p) s = p)"

fun includes' :: "string \<Rightarrow> string \<Rightarrow> bool" where
  "includes' [] p = (p = [])"
| "includes' (c # cs) p = (startsWith (c # cs) p \<or> includes' cs p)"

text \<open>
  Modelled from the spec: \<^verbatim>\<open>util.sortByRange\<close> of utility.ts, the comparator the constructor
  sorts the children with, is not among the sources. The spec has the children
  ``sorted by ascending range so sibling order reflects source order'' and
  ``in non-decreasing start-position order'': the comparator orders two symbols by the
  start of their ranges.
\<close>

definition sortByRange :: "DocumentSymbol \<Rightarrow> DocumentSymbol \<Rightarrow> int" where
  "sortByRange a b =
     (if isBefore (start (ds_range a)) (start (ds_range b)) then - 1
      else if isBefore (start (ds_range b)) (start (ds_range a)) then 1
      else 0)"

text \<open>
  \<^verbatim>\<open>Array.prototype.sort(compareFn)\<close>: a stable sort, here by insertion. An element
  goes before the first one it does not compare greater than.
\<close>

fun insertSorted :: "('a \<Rightarrow> 'a \<Rightarrow> int) \<Rightarrow> 'a \<Rightarrow> 'a list \<Rightarrow> 'a list" where
  "insertSorted cmp x [] = [x]"
| "insertSorted cmp x (y # ys) =
     (if cmp x y \<le> 0 then x # y # ys else y # insertSorted cmp x ys)"

definition sort_js :: "('a \<Rightarrow> 'a \<Rightarrow> int) \<Rightarrow> 'a list \<Rightarrow> 'a list" where
  "sort_js cmp xs = foldr (insertSorted cmp) xs []"

lemma set_insertSorted: "set (insertSorted cmp x ys) = insert x (set ys)"
  by (induction ys) auto

lemma set_sort_js: "set (sort_js cmp xs) = set xs"
  by (induction xs) (auto simp: sort_js_def set_insertSorted)

subsection \<open>The constructor of SourceSymbol\<close>

text \<open>
  \<^verbatim>\<open>new SourceSymbol(symbol, uri, parent)\<close> for a symbol of the provider (ProposedPosition.ts,
  lines 824 to 858). \<^verbatim>\<open>parse.getNormalizedSymbolName\<close> is not among the sources and is the
  first parameter. Each child is made with \<^verbatim>\<open>this\<close> for its parent, in the array the symbol
  with an empty array, and pushed onto the array.
\<close>

function SourceSymbol_new ::
  "(string \<Rightarrow> string) \<Rightarrow> string \<Rightarrow> SourceSymbol option \<Rightarrow> DocumentSymbol \<Rightarrow> SourceSymbol" where
  "SourceSymbol_new getNormalizedSymbolName u par (DocumentSymbol n d k r sr cs) =
     (let ccls = includes' d (n @ ''('');
          sg = (if ccls then d
                else (case par of
                        None \<Rightarrow> n
                      | Some p \<Rightarrow> if isClassOrStruct p then name p @ ''::'' @ n else n));
          kd = (if ccls \<and> k = Property then Method else k);
          this = SourceSymbol u (getNormalizedSymbolName n) d kd r sr sg par []
      in SourceSymbol u (getNormalizedSymbolName n) d kd r sr sg par
           (map (SourceSymbol_new getNormalizedSymbolName u (Some this)) (sort_js sortByRange cs)))"
  by pat_completeness auto
termination
proof (relation "measure (\<lambda>(f, u, p, d). size d)", goal_cases)
  case 1
  show ?case by simp
next
  case (2 f u par n d k r sr cs ccls sg kd this x)
  then have "x \<in> set cs"
    by (simp add: set_sort_js)
  then have "size x \<le> size_list size cs"
    by (rule size_list_estimation') simp
  then show ?case
    by simp
qed

text \<open>
  The two properties of a tree of symbols that the spec names. Both are about ranges, and
  a child has the same range in the array and when it is read from its parent.
\<close>

fun childrenSorted :: "SourceSymbol \<Rightarrow> bool" where
  "childrenSorted (SourceSymbol u n d k r sr sg p cs) =
     (sorted_wrt (\<lambda>a b. isBeforeOrEqual (start (range' a)) (start (range' b))) cs
      \<and> list_all childrenSorted cs)"

fun childrenContained :: "SourceSymbol \<Rightarrow> bool" where
  "childrenContained (SourceSymbol u n d k r sr sg p cs) =
     (list_all (\<lambda>c. contains r (range' c)) cs \<and> list_all childrenContained cs)"

text \<open>The same containment, of the provider's own tree.\<close>

fun providerContained :: "DocumentSymbol \<Rightarrow> bool" where
  "providerContained (DocumentSymbol n d k r sr cs) =
     (list_all (\<lambda>c. contains r (ds_range c)) cs \<and> list_all providerContained cs)"

text \<open>The order the children are sorted into, on the provider's symbols.\<close>

definition startsInOrder :: "DocumentSymbol \<Rightarrow> DocumentSymbol \<Rightarrow> bool" where
  "startsInOrder a b = isBeforeOrEqual (start (ds_range a)) (start (ds_range b))"

section \<open>CSymbol: a symbol bound to its document\<close>

text \<open>\<^verbatim>\<open>range.with(start, end)\<close>: the range itself when nothing changes, a new range otherwise.\<close>

definition rangeWith :: "Range \<Rightarrow> Position \<Rightarrow> Position \<Rightarrow> Range" where
  "rangeWith r s e = (if s = start r \<and> e = end' r then r else newRange s e)"

text \<open>
  Modelled from the spec: \<^verbatim>\<open>util.getEndOfStatement(document, position)\<close> of utility.ts, which
  the constructor of CSymbol calls, is not among the sources. The spec's statement-end
  adjustment ``extends the end position past any immediately-following semicolons'';
  \<^verbatim>\<open>SourceDocument.getEndOfStatement\<close> is that loop on the document of a SourceDocument.
\<close>

definition util_getEndOfStatement :: "TextDocument \<Rightarrow> Position \<Rightarrow> Position" where
  "util_getEndOfStatement doc p = getEndOfStatement doc p"

text \<open>
  A CSymbol is a SourceSymbol with a document. Its one \<^verbatim>\<open>parent\<close> property holds a
  CSymbol of the same document, so the model keeps the inherited fields, the parent among
  them, in \<open>symbol\<close> and the document beside them.
\<close>

datatype CSymbol = CSymbol (symbol: SourceSymbol) (document: TextDocument)

text \<open>
  \<^verbatim>\<open>new CSymbol(symbol, document, parent)\<close> for a SourceSymbol (ProposedPosition.ts, lines
  127 to 139): the fields are copied with the uri of the document, the array of the
  children is the array of the symbol, the parent is the argument or else a CSymbol made
  of the symbol's own parent, and the range ends at the end of the statement.
\<close>

fun CSymbol_fields :: "TextDocument \<Rightarrow> SourceSymbol option \<Rightarrow> SourceSymbol \<Rightarrow> SourceSymbol" where
  "CSymbol_fields doc (Some p) (SourceSymbol u n d k r sr sg par cs) =
     SourceSymbol (doc_uri doc) n d k
       (rangeWith r (start r) (util_getEndOfStatement doc (end' r))) sr sg (Some p)
       (children (SourceSymbol u n d k r sr sg par cs))"
| "CSymbol_fields doc None (SourceSymbol u n d k r sr sg None cs) =
     SourceSymbol (doc_uri doc) n d k
       (rangeWith r (start r) (util_getEndOfStatement doc (end' r))) sr sg None
       (children (SourceSymbol u n d k r sr sg None cs))"
| "CSymbol_fields doc None (SourceSymbol u n d k r sr sg (Some sp) cs) =
     SourceSymbol (doc_uri doc) n d k
       (rangeWith r (start r) (util_getEndOfStatement doc (end' r))) sr sg
       (Some (CSymbol_fields doc None sp))
       (children (SourceSymbol u n d k r sr sg (Some sp) cs))"

definition CSymbol_new :: "SourceSymbol \<Rightarrow> TextDocument \<Rightarrow> CSymbol option \<Rightarrow> CSymbol" where
  "CSymbol_new s doc parentArg = CSymbol (CSymbol_fields doc (map_option symbol parentArg) s) doc"

text \<open>\<^verbatim>\<open>text()\<close>: the text of the document in the symbol's range.\<close>

definition text' :: "CSymbol \<Rightarrow> string" where
  "text' c = getText (document c) (range' (symbol c))"

text \<open>\<^verbatim>\<open>startOffset()\<close> and \<^verbatim>\<open>endOffset()\<close>.\<close>

definition startOffset :: "CSymbol \<Rightarrow> nat" where
  "startOffset c = offsetAt (document c) (start (range' (symbol c)))"

definition endOffset :: "CSymbol \<Rightarrow> nat" where
  "endOffset c = offsetAt (document c) (end' (range' (symbol c)))"

text \<open>\<^verbatim>\<open>leadingText()\<close>: the text of the symbol before its name.\<close>

definition leadingText :: "CSymbol \<Rightarrow> string" where
  "leadingText c =
     getText (document c) (newRange (start (range' (symbol c))) (start (selectionRange (symbol c))))"

section \<open>JavaScript strings\<close>

text \<open>
  The methods of \<^verbatim>\<open>String.prototype\<close> the sources call. An index is an \<open>int\<close> where the
  source can hold \<open>-1\<close>, the value \<^verbatim>\<open>indexOf\<close> gives for no occurrence.
\<close>

definition endsWith :: "string \<Rightarrow> string \<Rightarrow> bool" where
  "endsWith s p = (length p \<le> length s \<and> drop (length s - length p) s = p)"

definition trimEnd :: "string \<Rightarrow> string" where
  "trimEnd s = rev (dropWhile isWhitespace (rev s))"

definition trimStart :: "string \<Rightarrow> string" where
  "trimStart s = dropWhile isWhitespace s"

definition trim :: "string \<Rightarrow> string" where
  "trim s = trimEnd (trimStart s)"

fun indexOf_in :: "char \<Rightarrow> string \<Rightarrow> nat \<Rightarrow> int" where
  "indexOf_in c [] i = - 1"
| "indexOf_in c (x # xs) i = (if x = c then int i else indexOf_in c xs (Suc i))"

text \<open>\<^verbatim>\<open>s.indexOf(c, from)\<close> for a single character \<open>c\<close>.\<close>

definition indexOf :: "string \<Rightarrow> char \<Rightarrow> nat \<Rightarrow> int" where
  "indexOf s c from = indexOf_in c (drop from s) from"

text \<open>\<^verbatim>\<open>s.substring(a, b)\<close>: both indices are clamped to the string and put in order.\<close>

definition substring :: "string \<Rightarrow> int \<Rightarrow> int \<Rightarrow> string" where
  "substring s a b =
     (let a' = min (nat a) (length s); b' = min (nat b) (length s)
      in take (max a' b' - min a' b') (drop (min a' b') s))"

text \<open>\<^verbatim>\<open>s.split(c)\<close> for a single character \<open>c\<close>: never the empty list.\<close>

fun splitOn :: "char \<Rightarrow> string \<Rightarrow> string list" where
  "splitOn c [] = [[]]"
| "splitOn c (x # xs) =
     (if x = c then [] # splitOn c xs
      else (case splitOn c xs of [] \<Rightarrow> [[x]] | l # ls \<Rightarrow> (x # l) # ls))"

text \<open>The first index at which \<open>p\<close> occurs in \<open>s\<close>.\<close>

fun indexOfString :: "string \<Rightarrow> string \<Rightarrow> nat option" where
  "indexOfString [] p = (if p = [] then Some 0 else None)"
| "indexOfString (c # cs) p =
     (if startsWith (c # cs) p then Some 0 else map_option Suc (indexOfString cs p))"

text \<open>\<^verbatim>\<open>\w\<close> of a regular expression: a letter, a digit or the underscore.\<close>

definition isWordChar :: "char \<Rightarrow> bool" where
  "isWordChar c =
     (let n = (of_char c :: nat)
      in (97 \<le> n \<and> n \<le> 122) \<or> (65 \<le> n \<and> n \<le> 90) \<or> (48 \<le> n \<and> n \<le> 57) \<or> n = 95)"

section \<open>Lexical masking\<close>

text \<open>
  Modelled from the spec: \<^verbatim>\<open>util.masker\<close> of utility.ts is not among the sources. Masking
  is ``replacing a lexical span with equal-length whitespace'': as many spaces as the match
  is long.
\<close>

definition masker :: "string \<Rightarrow> string" where
  "masker m = replicate (length m) (CHR '' '')"

text \<open>
  Modelled from the spec: the masking functions of utility.ts (\<^verbatim>\<open>maskComments\<close>,
  \<^verbatim>\<open>maskQuotes\<close>, \<^verbatim>\<open>maskParentheses\<close>, \<^verbatim>\<open>maskAngleBrackets\<close>, \<^verbatim>\<open>maskBraces\<close>,
  \<^verbatim>\<open>maskBrackets\<close>, \<^verbatim>\<open>maskComparisonOperators\<close>) are not among the sources. The spec
  (section 4.1) has them ``replace the contents of comments, string/character literals,
  parenthesized groups, bracketed groups, angle-bracket groups, and comparison operators
  with equal-length whitespace'', keeping every character outside the matched spans, with
  nesting handled by a ``best-effort bracket-depth scan''; on \<^verbatim>\<open>a(b(c,d),e)\<close> only the content
  of the outermost parentheses is replaced. The second argument of the sources' calls says
  whether the enclosing characters stay (\<^verbatim>\<open>maskAngleBrackets(text, true)\<close> is followed by
  \<^verbatim>\<open>endsWith('>')\<close>); left out, it is true (the result of \<^verbatim>\<open>maskParentheses(text)\<close> is
  searched for the parentheses themselves).
\<close>

text \<open>
  Modelled from the spec: the index of the closer that matches an opener, counted from the
  character after the opener; \<open>d\<close> is the number of groups open inside it.
\<close>

fun closingIndex :: "char \<Rightarrow> char \<Rightarrow> nat \<Rightarrow> string \<Rightarrow> nat option" where
  "closingIndex l r d [] = None"
| "closingIndex l r d (c # cs) =
     (if c = r then (case d of 0 \<Rightarrow> Some 0 | Suc d' \<Rightarrow> map_option Suc (closingIndex l r d' cs))
      else if c = l then map_option Suc (closingIndex l r (Suc d) cs)
      else map_option Suc (closingIndex l r d cs))"

text \<open>
  Modelled from the spec: masking of the outermost balanced groups between \<open>l\<close> and \<open>r\<close>.
  An opener that nothing closes is left as it is.
\<close>

function maskBalanced :: "char \<Rightarrow> char \<Rightarrow> string \<Rightarrow> bool \<Rightarrow> string" where
  "maskBalanced l r [] keepEnclosingChars = []"
| "maskBalanced l r (c # cs) keepEnclosingChars =
     (if c = l then
        (case closingIndex l r 0 cs of
           None \<Rightarrow> c # maskBalanced l r cs keepEnclosingChars
         | Some k \<Rightarrow>
             (if keepEnclosingChars then [l] else '' '') @ replicate k (CHR '' '')
             @ (if keepEnclosingChars then [r] else '' '')
             @ maskBalanced l r (drop (Suc k) cs) keepEnclosingChars)
      else c # maskBalanced l r cs keepEnclosingChars)"
  by pat_completeness auto
termination
  by (relation "measure (\<lambda>(l, r, s, k). length s)") auto

text \<open>
  Modelled from the spec: \<^verbatim>\<open>maskParentheses\<close>, \<^verbatim>\<open>maskAngleBrackets\<close>, \<^verbatim>\<open>maskBraces\<close> and
  \<^verbatim>\<open>maskBrackets\<close> mask the groups of their pair of characters.
\<close>

definition maskParentheses :: "string \<Rightarrow> bool \<Rightarrow> string" where
  "maskParentheses t keepEnclosingChars = maskBalanced (CHR ''('') (CHR '')'') t keepEnclosingChars"

definition maskAngleBrackets :: "string \<Rightarrow> bool \<Rightarrow> string" where
  "maskAngleBrackets t keepEnclosingChars = maskBalanced (CHR ''<'') (CHR ''>'') t keepEnclosingChars"

definition maskBraces :: "string \<Rightarrow> bool \<Rightarrow> string" where
  "maskBraces t keepEnclosingChars = maskBalanced (CHR ''{'') (CHR ''}'') t keepEnclosingChars"

definition maskBrackets :: "string \<Rightarrow> bool \<Rightarrow> string" where
  "maskBrackets t keepEnclosingChars = maskBalanced (CHR ''['') (CHR '']'') t keepEnclosingChars"

text \<open>
  Modelled from the spec: block comments are masked first and line comments after, as
  \<^verbatim>\<open>findPositionForNewHeaderGuard\<close> does it in SourceDocument.ts. A block comment runs from
  \<^verbatim>\<open>/*\<close> to the next \<^verbatim>\<open>*/\<close>, a line comment from \<^verbatim>\<open>//\<close> to the end of its line.
\<close>

function maskBlockComments :: "string \<Rightarrow> bool \<Rightarrow> string" where
  "maskBlockComments [] keepEnclosingChars = []"
| "maskBlockComments (c # cs) keepEnclosingChars =
     (if startsWith (c # cs) ''/*'' then
        (case indexOfString (drop 1 cs) ''*/'' of
           None \<Rightarrow> c # maskBlockComments cs keepEnclosingChars
         | Some k \<Rightarrow>
             (if keepEnclosingChars then ''/*'' else ''  '') @ replicate k (CHR '' '')
             @ (if keepEnclosingChars then ''*/'' else ''  '')
             @ maskBlockComments (drop (k + 3) cs) keepEnclosingChars)
      else c # maskBlockComments cs keepEnclosingChars)"
  by pat_completeness auto
termination
  by (relation "measure (\<lambda>(s, k). length s)") auto

text \<open>The line terminators of ASCII text, which the dot of a regular expression does not match.\<close>

definition isLineTerminator :: "char \<Rightarrow> bool" where
  "isLineTerminator c = (c = CHR 0x0A \<or> c = CHR 0x0D)"

text \<open>Modelled from the spec: the masking of line comments.\<close>

function maskLineComments :: "string \<Rightarrow> bool \<Rightarrow> string" where
  "maskLineComments [] keepEnclosingChars = []"
| "maskLineComments (c # cs) keepEnclosingChars =
     (if startsWith (c # cs) ''//'' then
        (let k = length (takeWhile (\<lambda>x. \<not> isLineTerminator x) (drop 1 cs))
         in (if keepEnclosingChars then ''//'' else ''  '') @ replicate k (CHR '' '')
            @ maskLineComments (drop (k + 1) cs) keepEnclosingChars)
      else c # maskLineComments cs keepEnclosingChars)"
  by pat_completeness auto
termination
  by (relation "measure (\<lambda>(s, k). length s)") auto

text \<open>Modelled from the spec: \<^verbatim>\<open>maskComments\<close>, block comments first and line comments after.\<close>

definition maskComments :: "string \<Rightarrow> bool \<Rightarrow> string" where
  "maskComments t keepEnclosingChars =
     maskLineComments (maskBlockComments t keepEnclosingChars) keepEnclosingChars"

text \<open>
  Modelled from the spec: ``single- and double-quoted literals with escape awareness''.
  The index of the quote that closes a literal, counted from the character after the
  opening quote; a backslash takes the character after it along.
\<close>

fun closingQuote :: "char \<Rightarrow> string \<Rightarrow> nat option" where
  "closingQuote q [] = None"
| "closingQuote q [c] = (if c = q then Some 0 else None)"
| "closingQuote q (c # c' # cs) =
     (if c = q then Some 0
      else if c = CHR 0x5C then map_option (\<lambda>k. Suc (Suc k)) (closingQuote q cs)
      else map_option Suc (closingQuote q (c' # cs)))"

text \<open>
  Modelled from the spec: \<^verbatim>\<open>maskQuotes\<close> masks the literals between single and between
  double quotes. A quote that nothing closes is left as it is.
\<close>

function maskQuotes :: "string \<Rightarrow> bool \<Rightarrow> string" where
  "maskQuotes [] keepEnclosingChars = []"
| "maskQuotes (c # cs) keepEnclosingChars =
     (if c = CHR 0x22 \<or> c = CHR 0x27 then
        (case closingQuote c cs of
           None \<Rightarrow> c # maskQuotes cs keepEnclosingChars
         | Some k \<Rightarrow>
             (if keepEnclosingChars then [c] else '' '') @ replicate k (CHR '' '')
             @ (if keepEnclosingChars then [c] else '' '')
             @ maskQuotes (drop (Suc k) cs) keepEnclosingChars)
      else c # maskQuotes cs keepEnclosingChars)"
  by pat_completeness auto
termination
  by (relation "measure (\<lambda>(s, k). length s)") auto

text \<open>
  Modelled from the spec: the comparison operators of C++, the longest first
  (\<^verbatim>\<open><=>\<close>, \<^verbatim>\<open>==\<close>, \<^verbatim>\<open>!=\<close>, \<^verbatim>\<open><=\<close>, \<^verbatim>\<open>>=\<close>, \<^verbatim>\<open><\<close>, \<^verbatim>\<open>>\<close>), are replaced by spaces.
\<close>

fun maskComparisonOperators :: "string \<Rightarrow> string" where
  "maskComparisonOperators [] = []"
| "maskComparisonOperators [c] = (if c = CHR ''<'' \<or> c = CHR ''>'' then '' '' else [c])"
| "maskComparisonOperators (c # c' # cs) =
     (if (c = CHR ''='' \<or> c = CHR ''!'' \<or> c = CHR ''<'' \<or> c = CHR ''>'') \<and> c' = CHR ''=''
      then CHR '' '' # CHR '' '' #
        (case cs of
           [] \<Rightarrow> []
         | c'' # cs' \<Rightarrow>
             if c = CHR ''<'' \<and> c'' = CHR ''>'' then CHR '' '' # maskComparisonOperators cs'
             else maskComparisonOperators (c'' # cs'))
      else if c = CHR ''<'' \<or> c = CHR ''>'' then CHR '' '' # maskComparisonOperators (c' # cs)
      else c # maskComparisonOperators (c' # cs))"

section \<open>Transforming declarations\<close>

text \<open>
  The loop of \<^verbatim>\<open>stripDefaultValues\<close> over the pieces of the masked parameters:
  \<open>charPos\<close> is where the piece starts in the unmasked text.
\<close>

fun stripDefaultValues_loop :: "string \<Rightarrow> string list \<Rightarrow> nat \<Rightarrow> string \<Rightarrow> string" where
  "stripDefaultValues_loop parameters [] charPos strippedParameters = strippedParameters"
| "stripDefaultValues_loop parameters (parameter # rest) charPos strippedParameters =
     stripDefaultValues_loop parameters rest (charPos + length parameter + 1)
       (strippedParameters @
         (if includes' parameter ''=''
          then trimEnd (substring parameters (int charPos) (int charPos + indexOf parameter (CHR ''='') 0)) @ '',''
          else substring parameters (int charPos) (int charPos + int (length parameter)) @ '',''))"

text \<open>\<^verbatim>\<open>CSymbol.stripDefaultValues\<close> (ProposedPosition.ts, lines 578 to 602).\<close>

definition stripDefaultValues :: "string \<Rightarrow> string" where
  "stripDefaultValues parameters =
     (let maskedParameters = maskComments parameters True;
          maskedParameters = maskQuotes maskedParameters True;
          maskedParameters = maskParentheses maskedParameters True;
          maskedParameters = maskAngleBrackets maskedParameters True;
          maskedParameters = maskBraces maskedParameters True;
          maskedParameters = maskBrackets maskedParameters True;
          maskedParameters = maskComparisonOperators maskedParameters;
          splitParameters = splitOn (CHR '','') maskedParameters;
          strippedParameters = stripDefaultValues_loop parameters splitParameters 0 []
      in substring strippedParameters 0 (int (length strippedParameters) - 1))"

section \<open>Regular expressions of the sources\<close>

text \<open>
  Each regular expression of the sources is a function that says how long its match is
  when it matches at a place: it gets the text before the place, the nearest character
  first (for \<^verbatim>\<open>\b\<close>, \<^verbatim>\<open>^\<close> and lookbehind), and the text from the place on. The
  expressions here match no empty string, but for the alignment expression, which has its
  own function further down.
\<close>

type_synonym matcher = "string \<Rightarrow> string \<Rightarrow> nat option"

text \<open>
  The matches of an expression with the flag \<^verbatim>\<open>g\<close>, as \<^verbatim>\<open>matchAll\<close> lists them: index and
  length, from left to right, each search starting where the match before ended. \<open>skip\<close>
  counts the characters of the current match still to pass.
\<close>

fun matchAll_scan :: "matcher \<Rightarrow> string \<Rightarrow> string \<Rightarrow> nat \<Rightarrow> nat \<Rightarrow> (nat \<times> nat) list" where
  "matchAll_scan m pre [] i skip = []"
| "matchAll_scan m pre (c # cs) i skip =
     (case skip of
        Suc k \<Rightarrow> matchAll_scan m (c # pre) cs (Suc i) k
      | 0 \<Rightarrow>
          (case m pre (c # cs) of
             Some (Suc k) \<Rightarrow> (i, Suc k) # matchAll_scan m (c # pre) cs (Suc i) k
           | _ \<Rightarrow> matchAll_scan m (c # pre) cs (Suc i) 0))"

definition matchAll :: "matcher \<Rightarrow> string \<Rightarrow> (nat \<times> nat) list" where
  "matchAll m s = matchAll_scan m [] s 0 0"

text \<open>\<^verbatim>\<open>s.match(re)?.index\<close> for an expression without the flag \<^verbatim>\<open>g\<close>: the first match.\<close>

definition matchIndex :: "matcher \<Rightarrow> string \<Rightarrow> nat option" where
  "matchIndex m s = (case matchAll m s of [] \<Rightarrow> None | (i, n) # ms \<Rightarrow> Some i)"

text \<open>The index of the last match of \<^verbatim>\<open>matchAll\<close>: what a loop that keeps the last match ends with.\<close>

definition lastMatchIndex :: "matcher \<Rightarrow> string \<Rightarrow> nat option" where
  "lastMatchIndex m s = (case matchAll m s of [] \<Rightarrow> None | x # xs \<Rightarrow> Some (fst (last (x # xs))))"

text \<open>\<^verbatim>\<open>s.replace(re, f)\<close> for an expression with the flag \<^verbatim>\<open>g\<close>.\<close>

fun replaceAll_scan :: "matcher \<Rightarrow> (string \<Rightarrow> string) \<Rightarrow> string \<Rightarrow> string \<Rightarrow> nat \<Rightarrow> string" where
  "replaceAll_scan m f pre [] skip = []"
| "replaceAll_scan m f pre (c # cs) skip =
     (case skip of
        Suc k \<Rightarrow> replaceAll_scan m f (c # pre) cs k
      | 0 \<Rightarrow>
          (case m pre (c # cs) of
             Some (Suc k) \<Rightarrow> f (take (Suc k) (c # cs)) @ replaceAll_scan m f (c # pre) cs k
           | _ \<Rightarrow> c # replaceAll_scan m f (c # pre) cs 0))"

definition replaceAll :: "matcher \<Rightarrow> (string \<Rightarrow> string) \<Rightarrow> string \<Rightarrow> string" where
  "replaceAll m f s = replaceAll_scan m f [] s 0"

text \<open>\<^verbatim>\<open>\b\<close> between the text before and the text after.\<close>

definition wordBefore :: "string \<Rightarrow> bool" where
  "wordBefore pre = (case pre of [] \<Rightarrow> False | c # cs \<Rightarrow> isWordChar c)"

definition wordBoundary :: "string \<Rightarrow> string \<Rightarrow> bool" where
  "wordBoundary pre s = (wordBefore pre \<noteq> wordBefore s)"

definition whitespaceRun :: "string \<Rightarrow> nat" where
  "whitespaceRun s = length (takeWhile isWhitespace s)"

text \<open>
  \<^verbatim>\<open>\b(k1|k2|...)\b\<close> at a place, for keywords that are words: the first keyword the text
  starts with as a whole word. The length of the keyword.
\<close>

fun keywordAt :: "string list \<Rightarrow> string \<Rightarrow> string \<Rightarrow> nat option" where
  "keywordAt [] pre s = None"
| "keywordAt (k # ks) pre s =
     (if \<not> wordBefore pre \<and> startsWith s k \<and> \<not> wordBefore (drop (length k) s)
      then Some (length k) else keywordAt ks pre s)"

text \<open>\<^verbatim>\<open>\b(k1|k2|...)\b\s*\<close>: the keyword and the whitespace after it.\<close>

definition re_keywordsThenSpace :: "string list \<Rightarrow> matcher" where
  "re_keywordsThenSpace ks pre s =
     (case keywordAt ks pre s of
        None \<Rightarrow> None
      | Some n \<Rightarrow> Some (n + whitespaceRun (drop n s)))"

text \<open>
  \<^verbatim>\<open>\s*\b(k1|k2|...)\b\<close>: the whitespace before the keyword and the keyword. After
  whitespace the boundary holds; with no whitespace it is the boundary at the place.
\<close>

definition re_spaceThenKeywords :: "string list \<Rightarrow> matcher" where
  "re_spaceThenKeywords ks pre s =
     (let w = whitespaceRun s
      in case keywordAt ks (if w = 0 then pre else '' '') (drop w s) of
           None \<Rightarrow> None
         | Some n \<Rightarrow> Some (w + n))"

text \<open>\<^verbatim>\<open>/\btemplate\s*<.+>/\<close>: the dot matches no line terminator, and \<^verbatim>\<open>.+\<close> is greedy, so
  the match ends at the last \<^verbatim>\<open>>\<close> of the line that has a character between it and the \<^verbatim>\<open><\<close>.\<close>

fun lastIndexOf_in :: "char \<Rightarrow> string \<Rightarrow> nat \<Rightarrow> nat option \<Rightarrow> nat option" where
  "lastIndexOf_in c [] i found = found"
| "lastIndexOf_in c (x # xs) i found = lastIndexOf_in c xs (Suc i) (if x = c then Some i else found)"

definition re_template :: matcher where
  "re_template pre s =
     (if \<not> wordBefore pre \<and> startsWith s ''template'' then
        (let s1 = drop 8 s; w = whitespaceRun s1
         in case drop w s1 of
              [] \<Rightarrow> None
            | c # s3 \<Rightarrow>
                if c = CHR ''<'' then
                  (case lastIndexOf_in (CHR ''>'') (takeWhile (\<lambda>x. \<not> isLineTerminator x) s3) 0 None of
                     None \<Rightarrow> None
                   | Some j \<Rightarrow> if 1 \<le> j then Some (8 + w + 1 + j + 1) else None)
                else None)
      else None)"

text \<open>\<^verbatim>\<open>/\s*{/\<close>.\<close>

definition re_openingBrace :: matcher where
  "re_openingBrace pre s =
     (let w = whitespaceRun s
      in case drop w s of [] \<Rightarrow> None | c # cs \<Rightarrow> if c = CHR ''{'' then Some (w + 1) else None)"

text \<open>\<^verbatim>\<open>/\s*:(?!:)/\<close>.\<close>

definition re_initializer :: matcher where
  "re_initializer pre s =
     (let w = whitespaceRun s
      in case drop w s of
           [] \<Rightarrow> None
         | c # cs \<Rightarrow> if c = CHR '':'' \<and> \<not> startsWith cs '':'' then Some (w + 1) else None)"

text \<open>
  \<^verbatim>\<open>re_beginingOfScopeString\<close>, \<^verbatim>\<open>/(?<!::\s*|[\w\d_])[\w_][\w\d_]*(?=\s*::)/g\<close>: an identifier
  with \<^verbatim>\<open>::\<close> after it and neither \<^verbatim>\<open>::\<close> nor a word character before it.
\<close>

definition wordRun :: "string \<Rightarrow> nat" where
  "wordRun s = length (takeWhile isWordChar s)"

definition re_beginingOfScopeString :: matcher where
  "re_beginingOfScopeString pre s =
     (let n = wordRun s
      in if 1 \<le> n \<and> \<not> wordBefore pre \<and> \<not> startsWith (dropWhile isWhitespace pre) ''::''
            \<and> startsWith (dropWhile isWhitespace (drop n s)) ''::''
         then Some n else None)"

text \<open>\<^verbatim>\<open>/^\s+/gm\<close>: whitespace at the start of a line.\<close>

definition atLineStart :: "string \<Rightarrow> bool" where
  "atLineStart pre = (case pre of [] \<Rightarrow> True | c # cs \<Rightarrow> isLineTerminator c)"

definition re_lineStartSpace :: matcher where
  "re_lineStartSpace pre s =
     (if atLineStart pre \<and> 1 \<le> whitespaceRun s then Some (whitespaceRun s) else None)"

text \<open>
  \<^verbatim>\<open>text.replace(new RegExp('^' + ' '.repeat(n), 'gm'), ' '.repeat(k))\<close>: at every start of a
  line that has \<open>n\<close> spaces, these become \<open>k\<close> spaces. With \<open>n = 0\<close> the expression matches the
  empty string at every start of a line, the end of the text too when a line starts there.
\<close>

function realign :: "nat \<Rightarrow> nat \<Rightarrow> string \<Rightarrow> string \<Rightarrow> string" where
  "realign n k pre [] = (if atLineStart pre \<and> n = 0 then replicate k (CHR '' '') else [])"
| "realign n k pre (c # cs) =
     (if atLineStart pre \<and> startsWith (c # cs) (replicate n (CHR '' '')) then
        (case n of
           0 \<Rightarrow> replicate k (CHR '' '') @ c # realign n k [c] cs
         | Suc n' \<Rightarrow> replicate k (CHR '' '') @ realign n k '' '' (drop n' cs))
      else c # realign n k [c] cs)"
  by pat_completeness auto
termination
  by (relation "measure (\<lambda>(n, k, pre, s). length s)") auto

text \<open>\<^verbatim>\<open>s.replace(/;$/, '')\<close>: one semicolon at the very end goes.\<close>

definition dropFinalSemicolon :: "string \<Rightarrow> string" where
  "dropFinalSemicolon s = (if endsWith s '';'' then take (length s - 1) s else s)"

text \<open>\<^verbatim>\<open>s.split(sep)\<close> for a separator that is not empty.\<close>

function splitString :: "string \<Rightarrow> string \<Rightarrow> string list" where
  "splitString [] sep = [[]]"
| "splitString (c # cs) sep =
     (if sep \<noteq> [] \<and> startsWith (c # cs) sep then [] # splitString (drop (length sep - 1) cs) sep
      else (case splitString cs sep of [] \<Rightarrow> [[c]] | l # ls \<Rightarrow> (c # l) # ls))"
  by pat_completeness auto
termination
  by (relation "measure (\<lambda>(s, sep). length s)") auto

section \<open>Ranges and predicates of a CSymbol\<close>

text \<open>
  \<^verbatim>\<open>/^(?<name>[\w_][\w\d_]*)::\k<name>/\<close> on a signature: an identifier, \<^verbatim>\<open>::\<close>, and the
  same identifier again.
\<close>

definition re_constructorSignature :: "string \<Rightarrow> bool" where
  "re_constructorSignature sg =
     (let n = takeWhile isWordChar sg
      in n \<noteq> [] \<and> startsWith (drop (length n) sg) (''::'' @ n))"

text \<open>\<^verbatim>\<open>isConstructor()\<close> of SourceSymbol.\<close>

definition isConstructor :: "SourceSymbol \<Rightarrow> bool" where
  "isConstructor s =
     ((kind s = Constructor \<or> kind s = Method \<or> kind s = Function)
      \<and> ((case parent s of None \<Rightarrow> False | Some p \<Rightarrow> name s = name p)
           \<or> re_constructorSignature (signature s)))"

text \<open>\<^verbatim>\<open>parsableText\<close>: the text of the symbol with its comments masked.\<close>

definition parsableText :: "CSymbol \<Rightarrow> string" where
  "parsableText c = maskComments (text' c) False"

definition isFunctionDeclaration :: "CSymbol \<Rightarrow> bool" where
  "isFunctionDeclaration c =
     (isFunction (symbol c)
      \<and> (detail (symbol c) = ''declaration'' \<or> \<not> endsWith (parsableText c) ''}''))"

definition isFunctionDefinition :: "CSymbol \<Rightarrow> bool" where
  "isFunctionDefinition c = (isFunction (symbol c) \<and> \<not> isFunctionDeclaration c)"

text \<open>
  \<^verbatim>\<open>getTrueStart()\<close> (ProposedPosition.ts, lines 526 to 550). The test
  \<^verbatim>\<open>!lastMatch?.index\<close> holds for no match and for a match at index 0.
\<close>

definition getTrueStart :: "CSymbol \<Rightarrow> Position" where
  "getTrueStart c =
     (let beforeStart = newRange (Position 0 0) (start (range' (symbol c)));
          maskedText = maskComments (getText (document c) beforeStart) False;
          maskedText = maskQuotes maskedText False;
          maskedText = trimEnd (maskAngleBrackets maskedText True)
      in if \<not> endsWith maskedText ''>'' then start (range' (symbol c))
         else (case lastMatchIndex re_template maskedText of
                 None \<Rightarrow> start (range' (symbol c))
               | Some 0 \<Rightarrow> start (range' (symbol c))
               | Some (Suc i) \<Rightarrow> positionAt (document c) (Suc i)))"

text \<open>\<^verbatim>\<open>getFullRange()\<close> and \<^verbatim>\<open>getFullText()\<close>.\<close>

definition getFullRange :: "CSymbol \<Rightarrow> Range" where
  "getFullRange c = newRange (getTrueStart c) (end' (range' (symbol c)))"

definition getFullText :: "CSymbol \<Rightarrow> string" where
  "getFullText c = getText (document c) (getFullRange c)"

text \<open>
  \<^verbatim>\<open>bodyStart(declaration?)\<close> (lines 555 to 576). An index computed from offsets is an
  \<open>int\<close>; \<^verbatim>\<open>positionAt\<close> takes a negative offset for 0. The tests \<^verbatim>\<open>!bodyStartIndex\<close> and
  \<^verbatim>\<open>!initializerIndex\<close> hold for no match and for a match at index 0.
\<close>

definition bodyStart :: "CSymbol \<Rightarrow> CSymbol option \<Rightarrow> Position" where
  "bodyStart c declaration =
     (let maskedText = maskQuotes (parsableText c) True;
          maskedText = maskParentheses maskedText True;
          startOffset = int (offsetAt (document c) (start (range' (symbol c))));
          nameEndIndex = int (offsetAt (document c) (end' (selectionRange (symbol c)))) - startOffset;
          bodyStartIndex = matchIndex re_openingBrace (substring maskedText nameEndIndex (int (length maskedText)))
      in case bodyStartIndex of
           None \<Rightarrow> end' (range' (symbol c))
         | Some 0 \<Rightarrow> end' (range' (symbol c))
         | Some (Suc b) \<Rightarrow>
             if \<not> isConstructor (symbol c)
                \<and> \<not> (case declaration of None \<Rightarrow> False | Some d \<Rightarrow> isConstructor (symbol d))
             then positionAt (document c) (nat (startOffset + nameEndIndex + int (Suc b)))
             else
               (case matchIndex re_initializer
                       (substring maskedText nameEndIndex (int (Suc b) + nameEndIndex)) of
                  None \<Rightarrow> positionAt (document c) (nat (startOffset + nameEndIndex + int (Suc b)))
                | Some 0 \<Rightarrow> positionAt (document c) (nat (startOffset + nameEndIndex + int (Suc b)))
                | Some (Suc i) \<Rightarrow> positionAt (document c) (nat (startOffset + nameEndIndex + int (Suc i)))))"

text \<open>\<^verbatim>\<open>scopeStringStart()\<close> (lines 604 to 620).\<close>

definition scopeStringStart :: "CSymbol \<Rightarrow> Position" where
  "scopeStringStart c =
     (let maskedLeadingText = trimEnd (maskComments (leadingText c) True)
      in if \<not> endsWith maskedLeadingText ''::'' then start (selectionRange (symbol c))
         else (case lastMatchIndex re_beginingOfScopeString maskedLeadingText of
                 None \<Rightarrow> start (selectionRange (symbol c))
               | Some i \<Rightarrow> positionAt (document c) (startOffset c + i)))"

text \<open>
  \<^verbatim>\<open>formatDeclarationForNewDefinition(targetDoc, position)\<close> (lines 458 to 495). The scope
  string is what \<^verbatim>\<open>this.scopeString(targetDoc, position)\<close> resolves to and \<open>endOfLine\<close> is
  \<^verbatim>\<open>targetDoc.endOfLine\<close>; neither is computed by code among the sources. \<open>None\<close> is the
  exception of \<^verbatim>\<open>lineAt\<close> for a line the document does not have.
\<close>

definition formatDeclarationForNewDefinition :: "CSymbol \<Rightarrow> string \<Rightarrow> string \<Rightarrow> string option" where
  "formatDeclarationForNewDefinition c endOfLine scopeString =
     (let declarationRange = newRange (getTrueStart c) (bodyStart c None);
          declaration = dropFinalSemicolon (getText (document c) declarationRange);
          maskedDeclaration = maskComments declaration False;
          maskedDeclaration = maskQuotes maskedDeclaration True;
          maskedDeclaration = maskParentheses maskedDeclaration True;
          nameEndIndex = int (offsetAt (document c) (end' (selectionRange (symbol c))))
                         - int (offsetAt (document c) (getTrueStart c));
          paramStartIndex = indexOf maskedDeclaration (CHR ''('') (nat nameEndIndex) + 1;
          paramEndIndex = indexOf maskedDeclaration (CHR '')'') 0
      in if paramStartIndex = - 1 \<or> paramEndIndex = - 1 then Some []
         else
           (let parameters = stripDefaultValues (substring declaration paramStartIndex paramEndIndex);
                leadingText = getText (document c) (newRange (getTrueStart c) (scopeStringStart c))
            in case lineAt (document c) (line (start (range' (symbol c)))) of
                 None \<Rightarrow> None
               | Some l \<Rightarrow>
                   (let leadingIndent = firstNonWhitespaceCharacterIndex l;
                        leadingLines = splitString leadingText endOfLine;
                        alignLength = length (last leadingLines);
                        leadingText = replaceAll
                          (re_keywordsThenSpace [''virtual'', ''static'', ''explicit'', ''friend''])
                          (\<lambda>m. []) leadingText;
                        leadingText = replaceAll re_lineStartSpace (\<lambda>m. []) leadingText;
                        definition = name (symbol c) @ ''('' @ parameters @ '')''
                          @ substring declaration (paramEndIndex + 1) (int (length declaration));
                        definition = realign (leadingIndent + alignLength)
                          (alignLength + length scopeString) [] definition;
                        definition = leadingText @ scopeString @ definition
                    in Some (replaceAll (re_spaceThenKeywords [''override'', ''final''])
                               (\<lambda>m. []) definition))))"

text \<open>\<^verbatim>\<open>newFunctionDeclaration()\<close> (lines 497 to 503).\<close>

definition newFunctionDeclaration :: "CSymbol \<Rightarrow> string" where
  "newFunctionDeclaration c =
     (if \<not> isFunctionDefinition c then []
      else trimEnd (getText (document c) (newRange (getTrueStart c) (bodyStart c None))) @ '';'')"

section \<open>SourceDocument: where a new definition goes\<close>

text \<open>\<^verbatim>\<open>vscode.Location\<close>; a uri is its path.\<close>

datatype Location = Location (loc_uri: string) (loc_range: Range)

text \<open>
  The object \<^verbatim>\<open>findPositionForFunctionDefinition\<close> returns: a position and the options
  \<^verbatim>\<open>before\<close>, \<^verbatim>\<open>after\<close>, \<^verbatim>\<open>nextTo\<close> and \<^verbatim>\<open>emptyScope\<close>, an option left out being false.
\<close>

datatype ProposedPosition =
  ProposedPosition (value': Position) (before: bool) (after: bool) (nextTo: bool) (emptyScope: bool)

text \<open>A SourceDocument: its text document and the symbols it has cached, if it has.\<close>

datatype SourceDocument =
  SourceDocument (textDocument: TextDocument) (symbols: "SourceSymbol list option")

text \<open>
  What the function asks of its environment, none of it code among the sources: the
  document-symbol provider (\<^verbatim>\<open>executeSourceSymbolProvider\<close>), the navigation oracle
  (\<^verbatim>\<open>symbol.findDefinition()\<close>), and the lookups of SourceFile that SourceDocument wraps
  (\<^verbatim>\<open>super.getSymbol\<close>, \<^verbatim>\<open>super.findMatchingSymbol\<close>), each given the path of the document.
\<close>

datatype Environment =
  Environment
    (executeSourceSymbolProvider: "string \<Rightarrow> SourceSymbol list")
    (findDefinition: "SourceSymbol \<Rightarrow> Location option")
    (super_getSymbol: "string \<Rightarrow> Position \<Rightarrow> SourceSymbol option")
    (super_findMatchingSymbol: "string \<Rightarrow> SourceSymbol \<Rightarrow> SourceSymbol option")

text \<open>\<^verbatim>\<open>SourceDocument.getSymbol\<close> and \<^verbatim>\<open>SourceDocument.findMatchingSymbol\<close> (lines 29 to 47).\<close>

definition getSymbol :: "Environment \<Rightarrow> TextDocument \<Rightarrow> Position \<Rightarrow> CSymbol option" where
  "getSymbol env doc position =
     (case super_getSymbol env (doc_uri doc) position of
        None \<Rightarrow> None
      | Some sourceSymbol \<Rightarrow> Some (CSymbol_new sourceSymbol doc None))"

definition findMatchingSymbol :: "Environment \<Rightarrow> TextDocument \<Rightarrow> SourceSymbol \<Rightarrow> CSymbol option" where
  "findMatchingSymbol env doc target =
     (case super_findMatchingSymbol env (doc_uri doc) target of
        None \<Rightarrow> None
      | Some sourceSymbol \<Rightarrow> Some (CSymbol_new sourceSymbol doc None))"

text \<open>\<^verbatim>\<open>array.slice(a, b)\<close> for indices that are not negative.\<close>

definition slice :: "'a list \<Rightarrow> nat \<Rightarrow> nat \<Rightarrow> 'a list" where
  "slice xs a b = take (b - a) (drop a xs)"

text \<open>
  The two loops over the siblings (lines 113 to 134). Each returns the position it found,
  if it found one, and the siblings whose definition it asked the navigation oracle for, in
  the order of the asking.
\<close>

fun probeBefore ::
  "Environment \<Rightarrow> TextDocument \<Rightarrow> SourceSymbol list \<Rightarrow> ProposedPosition option \<times> SourceSymbol list" where
  "probeBefore env targetDoc [] = (None, [])"
| "probeBefore env targetDoc (s # rest) =
     (case (case findDefinition env s of
              None \<Rightarrow> None
            | Some definitionLocation \<Rightarrow>
                if loc_uri definitionLocation \<noteq> doc_uri targetDoc then None
                else getSymbol env targetDoc (start (loc_range definitionLocation))) of
        None \<Rightarrow> (case probeBefore env targetDoc rest of (r, asked) \<Rightarrow> (r, s # asked))
      | Some definition \<Rightarrow>
          (Some (ProposedPosition (getEndOfStatement targetDoc (end' (range' (symbol definition))))
                   False True False False),
           [s]))"

fun probeAfter ::
  "Environment \<Rightarrow> TextDocument \<Rightarrow> SourceSymbol list \<Rightarrow> ProposedPosition option \<times> SourceSymbol list" where
  "probeAfter env targetDoc [] = (None, [])"
| "probeAfter env targetDoc (s # rest) =
     (case (case findDefinition env s of
              None \<Rightarrow> None
            | Some definitionLocation \<Rightarrow>
                if loc_uri definitionLocation \<noteq> doc_uri targetDoc then None
                else getSymbol env targetDoc (start (loc_range definitionLocation))) of
        None \<Rightarrow> (case probeAfter env targetDoc rest of (r, asked) \<Rightarrow> (r, s # asked))
      | Some definition \<Rightarrow>
          (Some (ProposedPosition (start (range' (symbol definition))) True False False False),
           [s]))"

text \<open>The loop over the enclosing scopes, the innermost first (lines 137 to 154).\<close>

fun namespaceFallback :: "Environment \<Rightarrow> TextDocument \<Rightarrow> SourceSymbol list \<Rightarrow> ProposedPosition option" where
  "namespaceFallback env targetDoc [] = None"
| "namespaceFallback env targetDoc (scope # rest) =
     (if kind scope = Namespace then
        (case findMatchingSymbol env targetDoc scope of
           None \<Rightarrow> namespaceFallback env targetDoc rest
         | Some targetNamespace \<Rightarrow>
             (case children (symbol targetNamespace) of
                [] \<Rightarrow>
                  (let bodyStart = int (offsetAt targetDoc (start (range' (symbol targetNamespace))))
                         + indexOf (text' targetNamespace) (CHR ''{'') 0 + 1
                   in Some (ProposedPosition (positionAt targetDoc (nat bodyStart)) False True True True))
              | c # cs \<Rightarrow>
                  Some (ProposedPosition
                          (getEndOfStatement targetDoc (end' (range' (last (c # cs)))))
                          False True False False)))
      else namespaceFallback env targetDoc rest)"

text \<open>The last line of the document that is not blank, from the last line down (lines 88 to 92).\<close>

fun lastNonEmptyLine :: "TextLine list \<Rightarrow> TextLine option" where
  "lastNonEmptyLine [] = None"
| "lastNonEmptyLine (l # ls) =
     (case lastNonEmptyLine ls of
        Some found \<Rightarrow> Some found
      | None \<Rightarrow> if \<not> isEmptyOrWhitespace l then Some l else None)"

definition allLines :: "TextDocument \<Rightarrow> TextLine list" where
  "allLines doc = map (\<lambda>(i, t). TextLine i t) (enumerate 0 (splitLines (doc_text doc)))"

datatype error = TypeError

text \<open>
  \<^verbatim>\<open>findPositionForFunctionDefinition(declaration, targetDoc)\<close> (SourceDocument.ts, lines 71
  to 161). \<open>targetDoc = None\<close> is the call that leaves the target out or passes the document
  itself, so that the target is the document with the symbols it has just loaded. The
  result comes with the siblings the navigation oracle was asked about. Reading the range
  of the last symbol of a target that has none throws a TypeError.
\<close>

definition findPositionForFunctionDefinition ::
  "Environment \<Rightarrow> SourceDocument \<Rightarrow> SourceSymbol \<Rightarrow> SourceDocument option
     \<Rightarrow> (error + ProposedPosition) \<times> SourceSymbol list" where
  "findPositionForFunctionDefinition env this declaration targetDoc =
     (let thisSymbols = (case symbols this of
                           None \<Rightarrow> executeSourceSymbolProvider env (doc_uri (textDocument this))
                         | Some ss \<Rightarrow> ss)
      in if uri declaration \<noteq> doc_uri (textDocument this) \<or> (parent declaration = None \<and> thisSymbols = [])
         then (Inr (ProposedPosition (Position 0 0) False False False False), [])
         else
           (let target = (case targetDoc of None \<Rightarrow> SourceDocument (textDocument this) (Some thisSymbols)
                                           | Some t \<Rightarrow> t);
                doc = textDocument target;
                targetSymbols = (case symbols target of
                                   None \<Rightarrow> executeSourceSymbolProvider env (doc_uri doc)
                                 | Some ss \<Rightarrow> ss)
            in if symbols target = None \<and> targetSymbols = [] then
                 (case lastNonEmptyLine (allLines doc) of
                    Some l \<Rightarrow> (Inr (ProposedPosition (end' (line_range l)) False True False False), [])
                  | None \<Rightarrow> (Inr (ProposedPosition (Position 0 0) False False False False), []))
               else
                 (let siblingSymbols = (case parent declaration of
                                          Some p \<Rightarrow> children p
                                        | None \<Rightarrow> thisSymbols);
                      relativeSymbolIndex =
                        length (takeWhile (\<lambda>s. range' s \<noteq> range' declaration) siblingSymbols);
                      start = relativeSymbolIndex - 5;
                      end = min (relativeSymbolIndex + 6) (length siblingSymbols);
                      before = slice siblingSymbols start relativeSymbolIndex;
                      after = slice siblingSymbols (relativeSymbolIndex + 1) end
                  in case probeBefore env doc (rev before) of
                       (Some p, asked) \<Rightarrow> (Inr p, asked)
                     | (None, asked) \<Rightarrow>
                         (case probeAfter env doc after of
                            (Some p, asked') \<Rightarrow> (Inr p, asked @ asked')
                          | (None, asked') \<Rightarrow>
                              (case namespaceFallback env doc (rev (scopes declaration)) of
                                 Some p \<Rightarrow> (Inr p, asked @ asked')
                               | None \<Rightarrow>
                                   (case targetSymbols of
                                      [] \<Rightarrow> (Inl TypeError, asked @ asked')
                                    | s # ss \<Rightarrow>
                                        (Inr (ProposedPosition
                                                (getEndOfStatement doc (end' (range' (last (s # ss)))))
                                                False True False False),
                                         asked @ asked')))))))"

section \<open>SourceDocument: where a new include goes\<close>

text \<open>
  \<^verbatim>\<open>/o.+c/\<close> for two characters \<open>o\<close> and \<open>c\<close>, tested on a text: somewhere an \<open>o\<close> and, later on
  the same line, a \<open>c\<close> with at least one character between them.
\<close>

definition dotPlusThen :: "char \<Rightarrow> string \<Rightarrow> bool" where
  "dotPlusThen c s =
     (case lastIndexOf_in c (takeWhile (\<lambda>x. \<not> isLineTerminator x) s) 0 None of
        None \<Rightarrow> False
      | Some j \<Rightarrow> 1 \<le> j)"

fun hasDelimited :: "char \<Rightarrow> char \<Rightarrow> string \<Rightarrow> bool" where
  "hasDelimited opening closing [] = False"
| "hasDelimited opening closing (x # xs) =
     ((x = opening \<and> dotPlusThen closing xs) \<or> hasDelimited opening closing xs)"

text \<open>
  \<^verbatim>\<open>(".+")$\<close>, the second alternative of the include expression: a quote, at least one
  character of the same line, and a quote that ends the text.
\<close>

fun quotedAtEnd :: "string \<Rightarrow> bool" where
  "quotedAtEnd [] = False"
| "quotedAtEnd (x # xs) =
     ((x = CHR 0x22 \<and> 2 \<le> length xs \<and> last xs = CHR 0x22 \<and> list_all (\<lambda>y. \<not> isLineTerminator y) xs)
      \<or> quotedAtEnd xs)"

text \<open>
  \<^verbatim>\<open>/^#include\s*(<.+>)|(".+")$/\<close> tested on a trimmed line. The alternation splits the
  whole expression: either the text starts with \<^verbatim>\<open>#include\<close>, whitespace and \<^verbatim>\<open><.+>\<close>, or it
  ends with \<^verbatim>\<open>".+"\<close>.
\<close>

definition re_include :: "string \<Rightarrow> bool" where
  "re_include t =
     ((startsWith t ''#include''
       \<and> (case dropWhile isWhitespace (drop 8 t) of
             [] \<Rightarrow> False
           | x # xs \<Rightarrow> x = CHR ''<'' \<and> dotPlusThen (CHR ''>'') xs))
      \<or> quotedAtEnd t)"

text \<open>
  \<^verbatim>\<open>r > largest\<close> on two \<^verbatim>\<open>vscode.Range\<close> objects. A relational operator of JavaScript
  turns an object operand into a primitive with \<^verbatim>\<open>valueOf\<close> and \<^verbatim>\<open>toString\<close>; the class
  Range defines neither, so both operands become the string \<^verbatim>\<open>[object Object]\<close>, and a
  string is not greater than itself.
\<close>

definition range_greater :: "Range \<Rightarrow> Range \<Rightarrow> bool" where
  "range_greater r largest = False"

text \<open>The local function \<^verbatim>\<open>largestBlock\<close> (lines 167 to 172).\<close>

definition largestBlock :: "TextLine \<Rightarrow> Position \<Rightarrow> Range option \<Rightarrow> Range" where
  "largestBlock l blockStart largest =
     (let r = newRange blockStart (start (line_range l))
      in case largest of
           None \<Rightarrow> r
         | Some lg \<Rightarrow> if range_greater r lg then r else lg)"

text \<open>The four variables of the loop over the lines (lines 174 to 177).\<close>

datatype IncludeScan =
  IncludeScan (systemIncludeStart: "Position option") (projectIncludeStart: "Position option")
    (largestSystemIncludeBlock: "Range option") (largestProjectIncludeBlock: "Range option")

text \<open>One turn of the loop (lines 179 to 204).\<close>

definition includeStep :: "IncludeScan \<Rightarrow> TextLine \<Rightarrow> IncludeScan" where
  "includeStep st l =
     (case st of IncludeScan sysStart projStart largestSys largestProj \<Rightarrow>
        if \<not> re_include (trim (line_text l)) then
          (case sysStart of
             Some s \<Rightarrow> IncludeScan None projStart (Some (largestBlock l s largestSys)) largestProj
           | None \<Rightarrow>
               (case projStart of
                  Some p \<Rightarrow> IncludeScan sysStart None largestSys (Some (largestBlock l p largestProj))
                | None \<Rightarrow> st))
        else if hasDelimited (CHR ''<'') (CHR ''>'') (line_text l) then
          (let sysStart' = (case sysStart of None \<Rightarrow> Some (start (line_range l)) | Some s \<Rightarrow> Some s)
           in case projStart of
                Some p \<Rightarrow> IncludeScan sysStart' None largestSys (Some (largestBlock l p largestProj))
              | None \<Rightarrow> IncludeScan sysStart' projStart largestSys largestProj)
        else if hasDelimited (CHR 0x22) (CHR 0x22) (line_text l) then
          (let projStart' = (case projStart of None \<Rightarrow> Some (start (line_range l)) | Some p \<Rightarrow> Some p)
           in case sysStart of
                Some s \<Rightarrow> IncludeScan None projStart' (Some (largestBlock l s largestSys)) largestProj
              | None \<Rightarrow> IncludeScan sysStart projStart' largestSys largestProj)
        else st)"

text \<open>
  The search from a line down to the first line for one that is not blank (lines 235 to
  240); \<open>None\<close> is the exception of \<^verbatim>\<open>lineAt\<close>.
\<close>

fun lastNonEmptyLineFrom :: "TextDocument \<Rightarrow> nat \<Rightarrow> (Position \<times> Position) option" where
  "lastNonEmptyLineFrom doc 0 =
     (case lineAt doc 0 of
        None \<Rightarrow> None
      | Some l \<Rightarrow>
          if \<not> isEmptyOrWhitespace l then Some (end' (line_range l), end' (line_range l))
          else Some (Position 0 0, Position 0 0))"
| "lastNonEmptyLineFrom doc (Suc i) =
     (case lineAt doc (Suc i) of
        None \<Rightarrow> None
      | Some l \<Rightarrow>
          if \<not> isEmptyOrWhitespace l then Some (end' (line_range l), end' (line_range l))
          else lastNonEmptyLineFrom doc i)"

text \<open>
  \<^verbatim>\<open>findPositionForNewInclude()\<close> (SourceDocument.ts, lines 164 to 243): the position for
  a system include and the position for a project include.
\<close>

definition findPositionForNewInclude ::
  "Environment \<Rightarrow> SourceDocument \<Rightarrow> (Position \<times> Position) option" where
  "findPositionForNewInclude env this =
     (case foldl includeStep (IncludeScan None None None None) (allLines (textDocument this)) of
        IncludeScan sysStart projStart largestSys largestProj \<Rightarrow>
          (let systemIncludePos = (case largestSys of
                                     Some b \<Rightarrow> Some (end' b)
                                   | None \<Rightarrow> (case largestProj of Some b \<Rightarrow> Some (end' b) | None \<Rightarrow> None));
               projectIncludePos = (case largestProj of
                                      Some b \<Rightarrow> Some (end' b)
                                    | None \<Rightarrow> (case largestSys of Some b \<Rightarrow> Some (end' b) | None \<Rightarrow> None))
           in case (systemIncludePos, projectIncludePos) of
                (Some s, Some p) \<Rightarrow> Some (s, p)
              | _ \<Rightarrow>
                  (let thisSymbols = (case symbols this of
                                        None \<Rightarrow> executeSourceSymbolProvider env (doc_uri (textDocument this))
                                      | Some ss \<Rightarrow> ss);
                       startLineNum = (case thisSymbols of
                                         [] \<Rightarrow> lineCount (textDocument this) - 1
                                       | s # ss \<Rightarrow> line (start (range' s)))
                   in lastNonEmptyLineFrom (textDocument this) startLineNum)))"

section \<open>Accessors\<close>

text \<open>\<^verbatim>\<open>re_blockComments\<close>, \<^verbatim>\<open>/\/\*(\*(?!\/)|[^*])*\*\//gm\<close>: from \<^verbatim>\<open>/*\<close> to the next \<^verbatim>\<open>*/\<close>.\<close>

definition re_blockComments :: matcher where
  "re_blockComments pre s =
     (if startsWith s ''/*'' then
        (case indexOfString (drop 2 s) ''*/'' of None \<Rightarrow> None | Some k \<Rightarrow> Some (k + 4))
      else None)"

text \<open>\<^verbatim>\<open>re_primitiveTypes\<close>.\<close>

definition primitiveTypes :: "string list" where
  "primitiveTypes =
     [''void'', ''bool'', ''char'', ''wchar_t'', ''char8_t'', ''char16_t'', ''char32_t'', ''int'',
      ''short'', ''long'', ''signed'', ''unsigned'', ''float'', ''double'']"

text \<open>\<^verbatim>\<open>matchesPrimitiveType(text)\<close> (lines 689 to 692).\<close>

definition matchesPrimitiveType :: "string \<Rightarrow> bool" where
  "matchesPrimitiveType t =
     (matchAll (keywordAt primitiveTypes) t \<noteq> []
      \<and> CHR ''<'' \<notin> set t \<and> CHR ''>'' \<notin> set t)"

text \<open>
  \<^verbatim>\<open>re_scopeResolvedIdentifier\<close>, \<^verbatim>\<open>/[\w_][\w\d_]*\b(?!\s*::)/\<close>: word characters up to the
  end of their word, with no \<^verbatim>\<open>::\<close> after it.
\<close>

definition re_scopeResolvedIdentifier :: matcher where
  "re_scopeResolvedIdentifier pre s =
     (let n = wordRun s
      in if 1 \<le> n \<and> \<not> startsWith (dropWhile isWhitespace (drop n s)) ''::'' then Some n else None)"

text \<open>
  \<^verbatim>\<open>/\b(struct|class|(<(>(?=>)|[^>])*>))\b/\<close>: the word \<^verbatim>\<open>struct\<close>, the word \<^verbatim>\<open>class\<close>, or,
  between two word characters, a \<^verbatim>\<open><\<close>, characters other than \<^verbatim>\<open>>\<close> and a run of \<^verbatim>\<open>>\<close>.
\<close>

definition re_structClassTemplate :: matcher where
  "re_structClassTemplate pre s =
     (case keywordAt [''struct'', ''class''] pre s of
        Some n \<Rightarrow> Some n
      | None \<Rightarrow>
          (case s of
             [] \<Rightarrow> None
           | c # r \<Rightarrow>
               if c = CHR ''<'' \<and> wordBefore pre then
                 (let a = length (takeWhile (\<lambda>x. x \<noteq> CHR ''>'') r);
                      k = length (takeWhile (\<lambda>x. x = CHR ''>'') (drop a r))
                  in if 1 \<le> k \<and> wordBefore (drop (a + k) r) then Some (1 + a + k) else None)
               else None))"

definition isPointer :: "CSymbol \<Rightarrow> bool" where
  "isPointer c =
     (CHR ''*'' \<in> set (maskAngleBrackets (replaceAll re_blockComments (\<lambda>m. []) (leadingText c)) True))"

definition isTypedef :: "CSymbol \<Rightarrow> bool" where
  "isTypedef c =
     (mightBeTypedefOrTypeAlias (symbol c) \<and> matchAll (keywordAt [''typedef'']) (parsableText c) \<noteq> [])"

definition isTypeAlias :: "CSymbol \<Rightarrow> bool" where
  "isTypeAlias c =
     (if mightBeTypedefOrTypeAlias (symbol c)
      then matchAll (keywordAt [''using'']) (parsableText c) \<noteq> [] \<and> CHR ''='' \<in> set (parsableText c)
      else False)"

text \<open>
  \<^verbatim>\<open>isPrimitive()\<close> (lines 373 to 424). \<open>resolveTypes\<close> is the setting \<^verbatim>\<open>cfg.resolveTypes()\<close>.
  \<open>resolveThisType\<close> is what awaiting \<^verbatim>\<open>this.resolveThisType(offset)\<close> gives: it asks the
  navigation oracle and opens other files, none of it code among the sources, and it has no
  guard against aliases that name each other, so it is \<open>None\<close> when it never resolves.
\<close>

definition isPrimitive :: "bool \<Rightarrow> (nat \<Rightarrow> bool option) \<Rightarrow> CSymbol \<Rightarrow> bool option" where
  "isPrimitive resolveTypes resolveThisType c =
     (if isVariable (symbol c) then
        (let leadingText' = replaceAll re_blockComments masker (leadingText c)
         in if matchesPrimitiveType leadingText' then Some True
            else if \<not> resolveTypes then Some False
            else
              (let type' = replaceAll
                     (keywordAt [''static'', ''const'', ''constexpr'', ''inline'', ''mutable''])
                     masker leadingText'
               in case matchIndex re_scopeResolvedIdentifier type' of
                    Some i \<Rightarrow> resolveThisType (startOffset c + i)
                  | None \<Rightarrow> Some False))
      else if isTypedef c then
        (if matchesPrimitiveType (parsableText c) then Some True
         else if matchAll re_structClassTemplate (parsableText c) \<noteq> [] then Some False
         else if \<not> resolveTypes then Some False
         else
           (let maskedText = replaceAll (keywordAt [''typedef'', ''const'']) masker (parsableText c)
            in case matchIndex re_scopeResolvedIdentifier maskedText of
                 Some i \<Rightarrow> resolveThisType (startOffset c + i)
               | None \<Rightarrow> Some False))
      else if isTypeAlias c then
        (if matchesPrimitiveType (parsableText c) then Some True
         else if matchAll re_structClassTemplate (parsableText c) \<noteq> [] then Some False
         else if \<not> resolveTypes then Some False
         else
           (let indexOfEquals = indexOf (parsableText c) (CHR ''='') 0
            in if indexOfEquals = - 1 then Some False
               else
                 (let type' = substring (parsableText c) (indexOfEquals + 1) (int (length (parsableText c)))
                  in case matchIndex re_scopeResolvedIdentifier type' of
                       Some i \<Rightarrow> resolveThisType (startOffset c + i)
                     | None \<Rightarrow> Some False)))
      else Some False)"

text \<open>The class Setter (lines 757 to 805).\<close>

datatype Setter =
  Setter (memberVariable: CSymbol) (setter_name: string) (isStatic: bool) (returnType: string)
    (parameter: string) (body: string)

text \<open>
  The private constructor. \<^verbatim>\<open>setterName()\<close> of the member variable is not among the
  sources and is the first parameter.
\<close>

definition Setter_new :: "(SourceSymbol \<Rightarrow> string) \<Rightarrow> CSymbol \<Rightarrow> Setter" where
  "Setter_new setterName mv =
     Setter mv (setterName (symbol mv)) False ''void '' [] (name (symbol mv) @ '' = value;'')"

text \<open>
  \<^verbatim>\<open>Setter.create(memberVariable)\<close> (lines 769 to 781); \<open>None\<close> when \<^verbatim>\<open>isPrimitive()\<close>
  never resolves.
\<close>

definition Setter_create ::
  "(SourceSymbol \<Rightarrow> string) \<Rightarrow> bool \<Rightarrow> (nat \<Rightarrow> bool option) \<Rightarrow> CSymbol \<Rightarrow> Setter option" where
  "Setter_create setterName resolveTypes resolveThisType mv =
     (let setter = Setter_new setterName mv;
          leadingText' = leadingText mv;
          type' = replaceAll (re_keywordsThenSpace [''static'', ''mutable'']) (\<lambda>m. []) leadingText';
          static = (matchAll (keywordAt [''static'']) leadingText' \<noteq> [])
      in case isPrimitive resolveTypes resolveThisType mv of
           None \<Rightarrow> None
         | Some primitive \<Rightarrow>
             Some (Setter (memberVariable setter) (setter_name setter) static (returnType setter)
                     ((if \<not> primitive \<and> \<not> isPointer mv then ''const '' @ type' @ ''&'' else type')
                      @ ''value'')
                     (body setter)))"

text \<open>The getter \<^verbatim>\<open>declaration\<close> of a Setter (lines 793 to 796).\<close>

definition Setter_declaration :: "Setter \<Rightarrow> string" where
  "Setter_declaration s =
     (if isStatic s then ''static '' else []) @ ''void '' @ setter_name s @ ''('' @ parameter s @ '')''"

section \<open>The command updateSignature\<close>

text \<open>
  \<^verbatim>\<open>workspaceEdit.replace(uri, range, text)\<close>: one replacement of a workspace edit.
\<close>

datatype Replacement = Replacement (edit_uri: string) (edit_range: Range) (edit_text: string)

text \<open>
  What the command asks of its environment beyond the lookups of a SourceDocument: the
  class FunctionSignature, the opening of a document and \<^verbatim>\<open>vscode.workspace.applyEdit\<close>.
  None of it is code among the sources.
\<close>

datatype Workspace =
  Workspace
    (lookups: Environment)
    (openTextDocument: "string \<Rightarrow> TextDocument")
    (normalizedReturnType: "CSymbol \<Rightarrow> string")
    (returnTypeRange: "CSymbol \<Rightarrow> Range")
    (returnType_of: "CSymbol \<Rightarrow> string")
    (applyEdit: "Replacement list \<Rightarrow> bool")

text \<open>
  What a run of the command leaves behind: the value it returns (\<open>None\<close> is
  \<^verbatim>\<open>undefined\<close>), the alerts it showed with \<^verbatim>\<open>logger.alertError\<close>, and the workspace edit it
  built and handed to \<^verbatim>\<open>applyEdit\<close>, if it got that far.
\<close>

datatype Outcome =
  Outcome (returned: "bool option") (alerts: "string list") (workspaceEdit: "Replacement list option")

text \<open>The part of the command after its checks (updateSignature.ts, lines 30 to 39).\<close>

definition syncReturnType :: "Workspace \<Rightarrow> CSymbol \<Rightarrow> TextDocument \<Rightarrow> CSymbol \<Rightarrow> Outcome" where
  "syncReturnType ws currentFunction linkedDoc linkedFunction =
     (let edit = (if normalizedReturnType ws currentFunction \<noteq> normalizedReturnType ws linkedFunction
                  then [Replacement (doc_uri linkedDoc) (returnTypeRange ws linkedFunction)
                          (returnType_of ws currentFunction)]
                  else [])
      in Outcome (Some (applyEdit ws edit)) [] (Some edit))"

text \<open>\<^verbatim>\<open>updateSignature(currentFunction, sourceDoc, linkedLocation)\<close> (lines 8 to 40).\<close>

definition updateSignature :: "Workspace \<Rightarrow> CSymbol \<Rightarrow> TextDocument \<Rightarrow> Location \<Rightarrow> Outcome" where
  "updateSignature ws currentFunction sourceDoc linkedLocation =
     (let linkedDoc = (if loc_uri linkedLocation = doc_uri sourceDoc then sourceDoc
                       else openTextDocument ws (loc_uri linkedLocation));
          linkedFunction = getSymbol (lookups ws) linkedDoc (start (loc_range linkedLocation))
      in if isFunctionDeclaration currentFunction then
           (case linkedFunction of
              None \<Rightarrow> Outcome None [''The linked definition could not be found.''] None
            | Some lf \<Rightarrow>
                if \<not> isFunctionDefinition lf \<or> name (symbol lf) \<noteq> name (symbol currentFunction)
                then Outcome None [''The linked definition could not be found.''] None
                else syncReturnType ws currentFunction linkedDoc lf)
         else
           (case linkedFunction of
              None \<Rightarrow> Outcome None [''The linked declaration could not be found.''] None
            | Some lf \<Rightarrow>
                if \<not> isFunctionDeclaration lf \<or> name (symbol lf) \<noteq> name (symbol currentFunction)
                then Outcome None [''The linked declaration could not be found.''] None
                else syncReturnType ws currentFunction linkedDoc lf))"

section \<open>Notions the properties are stated with\<close>

text \<open>The document \<^verbatim>\<open>updateSignature\<close> looks the linked function up in.\<close>

definition linkedDocument :: "Workspace \<Rightarrow> TextDocument \<Rightarrow> Location \<Rightarrow> TextDocument" where
  "linkedDocument ws sourceDoc linkedLocation =
     (if loc_uri linkedLocation = doc_uri sourceDoc then sourceDoc
      else openTextDocument ws (loc_uri linkedLocation))"

text \<open>
  The mismatch of C9: no symbol at the linked location, a symbol without the
  complementary role, or a symbol of another name.
\<close>

definition linkMismatch :: "CSymbol \<Rightarrow> CSymbol option \<Rightarrow> bool" where
  "linkMismatch currentFunction linkedFunction =
     (case linkedFunction of
        None \<Rightarrow> True
      | Some lf \<Rightarrow>
          (if isFunctionDeclaration currentFunction then \<not> isFunctionDefinition lf
           else \<not> isFunctionDeclaration lf)
          \<or> name (symbol lf) \<noteq> name (symbol currentFunction))"

text \<open>A header that declares \<^verbatim>\<open>foo\<close> and a source file that defines \<^verbatim>\<open>bar\<close>.\<close>

definition headerFoo :: TextDocument where
  "headerFoo = TextDocument ''/foo.h'' ''void foo();''"

definition sourceFoo :: TextDocument where
  "sourceFoo = TextDocument ''/foo.cpp'' (''void bar()'' @ [LF] @ ''{'' @ [LF] @ ''}'')"

definition fooInHeader :: CSymbol where
  "fooInHeader = CSymbol_new
     (SourceSymbol ''/foo.h'' ''foo'' [] Function (Range (Position 0 0) (Position 0 10))
        (Range (Position 0 5) (Position 0 8)) ''foo'' None [])
     headerFoo None"

definition barInSource :: SourceSymbol where
  "barInSource = SourceSymbol ''/foo.cpp'' ''bar'' [] Function (Range (Position 0 0) (Position 2 1))
        (Range (Position 0 5) (Position 0 8)) ''bar'' None []"

definition workspaceFoo :: Workspace where
  "workspaceFoo = Workspace
     (Environment (\<lambda>u. []) (\<lambda>s. None)
        (\<lambda>u p. if u = ''/foo.cpp'' then Some barInSource else None) (\<lambda>u s. None))
     (\<lambda>u. sourceFoo) (\<lambda>c. ''void'') (\<lambda>c. Range (Position 0 0) (Position 0 4)) (\<lambda>c. ''void'')
     (\<lambda>e. True)"

text \<open>
  What C8 words as ``the member's type text with static/mutable stripped'', said without
  regular expressions. A text is a row of words, the longest runs of word characters, and
  of single characters of any other kind.
\<close>

fun splitWords :: "string \<Rightarrow> string list" where
  "splitWords [] = []"
| "splitWords (c # cs) =
     (case splitWords cs of
        (d # w) # ws \<Rightarrow> if isWordChar c \<and> isWordChar d then (c # d # w) # ws else [c] # (d # w) # ws
      | ws \<Rightarrow> [c] # ws)"

text \<open>
  A row of words without the words \<open>ks\<close> and without the whitespace after such a word.
  \<open>afterOne\<close> says that the words passed last were one of \<open>ks\<close> and whitespace.
\<close>

fun withoutWords :: "string list \<Rightarrow> bool \<Rightarrow> string list \<Rightarrow> string list" where
  "withoutWords ks afterOne [] = []"
| "withoutWords ks afterOne (w # ws) =
     (if w \<in> set ks then withoutWords ks True ws
      else if afterOne \<and> list_all isWhitespace w then withoutWords ks True ws
      else w # withoutWords ks False ws)"

definition withoutStorageSpecifiers :: "string \<Rightarrow> string" where
  "withoutStorageSpecifiers t = concat (withoutWords [''static'', ''mutable''] False (splitWords t))"

text \<open>The type text of a member: the text before its name without \<^verbatim>\<open>static\<close> and \<^verbatim>\<open>mutable\<close>.\<close>

definition typeText :: "CSymbol \<Rightarrow> string" where
  "typeText mv = withoutStorageSpecifiers (leadingText mv)"

text \<open>A word: characters of words, one at least.\<close>

definition isWord :: "string \<Rightarrow> bool" where
  "isWord w = (w \<noteq> [] \<and> list_all isWordChar w)"

text \<open>
  A struct with a member of a primitive type, one of a class type, a pointer, a static
  member and a mutable member.
\<close>

definition widgetHeader :: TextDocument where
  "widgetHeader = TextDocument ''/widget.h''
     (''struct Widget {'' @ [LF] @ ''    int count;'' @ [LF] @ ''    std::string label;'' @ [LF]
      @ ''    Widget* next;'' @ [LF] @ ''    static long total;'' @ [LF]
      @ ''    mutable std::string note;'' @ [LF] @ ''};'')"

definition widgetStruct :: SourceSymbol where
  "widgetStruct = SourceSymbol ''/widget.h'' ''Widget'' [] Struct (Range (Position 0 0) (Position 6 1))
     (Range (Position 0 7) (Position 0 13)) ''Widget'' None []"

definition widgetField :: "string \<Rightarrow> nat \<Rightarrow> nat \<Rightarrow> nat \<Rightarrow> CSymbol" where
  "widgetField n l c e = CSymbol_new
     (SourceSymbol ''/widget.h'' n [] Field (Range (Position l 4) (Position l e))
        (Range (Position l c) (Position l e)) (''Widget::'' @ n) (Some widgetStruct) [])
     widgetHeader None"

definition setterOf :: "SourceSymbol \<Rightarrow> string" where
  "setterOf s = ''set_'' @ name s"

text \<open>
  What the two loops of \<^verbatim>\<open>findPositionForFunctionDefinition\<close> look for: the navigation oracle
  gives a location for the sibling's definition, the location is in the target document, and
  the target document has a symbol at the start of the location.
\<close>

definition definitionInTarget :: "Environment \<Rightarrow> TextDocument \<Rightarrow> SourceSymbol \<Rightarrow> CSymbol option" where
  "definitionInTarget env targetDoc s =
     (case findDefinition env s of
        None \<Rightarrow> None
      | Some definitionLocation \<Rightarrow>
          if loc_uri definitionLocation \<noteq> doc_uri targetDoc then None
          else getSymbol env targetDoc (start (loc_range definitionLocation)))"

text \<open>The symbols of a document once it has loaded them.\<close>

definition loadedSymbols :: "Environment \<Rightarrow> SourceDocument \<Rightarrow> SourceSymbol list" where
  "loadedSymbols env d =
     (case symbols d of
        None \<Rightarrow> executeSourceSymbolProvider env (doc_uri (textDocument d))
      | Some ss \<Rightarrow> ss)"


text \<open>The siblings of a declaration: its parent's children, or the symbols of the document.\<close>

definition siblingsOf :: "Environment \<Rightarrow> SourceDocument \<Rightarrow> SourceSymbol \<Rightarrow> SourceSymbol list" where
  "siblingsOf env this declaration =
     (case parent declaration of Some p \<Rightarrow> children p | None \<Rightarrow> loadedSymbols env this)"

text \<open>A position marked \<^verbatim>\<open>after\<close>, and one marked \<^verbatim>\<open>before\<close>.\<close>

definition after' :: "Position \<Rightarrow> ProposedPosition" where
  "after' p = ProposedPosition p False True False False"



text \<open>
  A header that declares five functions and a source file that defines three of them. The
  symbols the source file has cached are older than its definition of \<^verbatim>\<open>c\<close>: they list
  the definitions of \<^verbatim>\<open>a\<close> and \<^verbatim>\<open>e\<close> only. The oracle places the definition of \<^verbatim>\<open>b\<close>
  in another file and the definition of \<^verbatim>\<open>c\<close> where it is, on line 6 of the source file.
\<close>

definition shapesHeader :: TextDocument where
  "shapesHeader = TextDocument ''/shapes.h''
     (''void a();'' @ [LF] @ ''void b();'' @ [LF] @ ''void c();'' @ [LF] @ ''void d();'' @ [LF]
      @ ''void e();'' @ [LF])"

definition shapesSource :: TextDocument where
  "shapesSource = TextDocument ''/shapes.cpp''
     (''void a()'' @ [LF] @ ''{'' @ [LF] @ ''};'' @ [LF] @ ''void e()'' @ [LF] @ ''{'' @ [LF] @ ''}'' @ [LF]
      @ ''void c()'' @ [LF] @ ''{'' @ [LF] @ ''}'' @ [LF])"

definition declared :: "string \<Rightarrow> nat \<Rightarrow> SourceSymbol" where
  "declared n l = SourceSymbol ''/shapes.h'' n [] Function (Range (Position l 0) (Position l 8))
     (Range (Position l 5) (Position l 6)) n None []"

definition defined :: "string \<Rightarrow> nat \<Rightarrow> SourceSymbol" where
  "defined n l = SourceSymbol ''/shapes.cpp'' n [] Function (Range (Position l 0) (Position (l + 2) 1))
     (Range (Position l 5) (Position l 6)) n None []"

definition shapesTarget :: SourceDocument where
  "shapesTarget = SourceDocument shapesSource (Some [defined ''a'' 0, defined ''e'' 3])"

definition shapesEnvironment :: Environment where
  "shapesEnvironment = Environment
     (\<lambda>u. if u = ''/shapes.h''
           then [declared ''a'' 0, declared ''b'' 1, declared ''c'' 2, declared ''d'' 3, declared ''e'' 4]
           else if u = ''/shapes.cpp'' then [defined ''a'' 0, defined ''e'' 3] else [])
     (\<lambda>s. if name s = ''a'' then Some (Location ''/shapes.cpp'' (Range (Position 0 5) (Position 0 6)))
           else if name s = ''b'' then Some (Location ''/other.cpp'' (Range (Position 0 5) (Position 0 6)))
           else if name s = ''c'' then Some (Location ''/shapes.cpp'' (Range (Position 6 5) (Position 6 6)))
           else if name s = ''e'' then Some (Location ''/shapes.cpp'' (Range (Position 3 5) (Position 3 6)))
           else None)
     (\<lambda>u p. if u = ''/shapes.cpp''
             then (if line p \<le> 2 then Some (defined ''a'' 0)
                   else if line p \<le> 5 then Some (defined ''e'' 3) else None)
             else None)
     (\<lambda>u s. None)"

text \<open>
  A class with three member functions, which the provider reports out of order and each
  with its semicolon, the tree the constructor of SourceSymbol builds of it, and a source
  file that defines the first of the three.
\<close>

definition circleHeader :: TextDocument where
  "circleHeader = TextDocument ''/circle.h''
     (''class Circle {'' @ [LF] @ ''    void area();'' @ [LF] @ ''    void move();'' @ [LF]
      @ ''    void draw();'' @ [LF] @ ''};'')"

definition reportedMethod :: "string \<Rightarrow> nat \<Rightarrow> DocumentSymbol" where
  "reportedMethod n l = DocumentSymbol n [] Method (Range (Position l 4) (Position l 16))
     (Range (Position l 9) (Position l 13)) []"

definition circleClass :: DocumentSymbol where
  "circleClass = DocumentSymbol ''Circle'' [] Class (Range (Position 0 0) (Position 4 1))
     (Range (Position 0 6) (Position 0 12))
     [reportedMethod ''draw'' 3, reportedMethod ''area'' 1, reportedMethod ''move'' 2]"

definition circleTree :: SourceSymbol where
  "circleTree = SourceSymbol_new (\<lambda>n. n) ''/circle.h'' None circleClass"

definition circleSource :: TextDocument where
  "circleSource = TextDocument ''/circle.cpp''
     (''void Circle::area()'' @ [LF] @ ''{'' @ [LF] @ ''}'' @ [LF])"

definition areaDefined :: SourceSymbol where
  "areaDefined = SourceSymbol ''/circle.cpp'' ''area'' [] Method (Range (Position 0 0) (Position 2 1))
     (Range (Position 0 13) (Position 0 17)) ''Circle::area'' None []"

definition circleEnvironment :: Environment where
  "circleEnvironment = Environment
     (\<lambda>u. if u = ''/circle.h'' then [circleTree] else if u = ''/circle.cpp'' then [areaDefined] else [])
     (\<lambda>s. if name s = ''area'' then Some (Location ''/circle.cpp'' (Range (Position 0 13) (Position 0 17)))
           else None)
     (\<lambda>u p. if u = ''/circle.cpp'' \<and> line p \<le> 2 then Some areaDefined else None)
     (\<lambda>u s. None)"

text \<open>
  The text \<^verbatim>\<open>getTrueStart\<close> scans: what the document has before the symbol, with comments
  and quotes masked, the content of angle brackets masked, and the whitespace at the end
  dropped.
\<close>

definition precedingText :: "CSymbol \<Rightarrow> string" where
  "precedingText c =
     trimEnd (maskAngleBrackets
       (maskQuotes
          (maskComments (getText (document c) (newRange (Position 0 0) (start (range' (symbol c))))) False)
          False)
       True)"

text \<open>
  What C3 words as ``a template clause immediately precedes the symbol (modulo comments,
  quotes, and whitespace)'': the text before the symbol, with comments and quotes masked
  and the whitespace at its end dropped, ends with the word \<^verbatim>\<open>template\<close>, whitespace, and
  one group of balanced angle brackets.
\<close>

definition templateClauseAt :: "string \<Rightarrow> string \<Rightarrow> bool" where
  "templateClauseAt pre s =
     (\<not> wordBefore pre \<and> startsWith s ''template''
      \<and> (case dropWhile isWhitespace (drop 8 s) of
            [] \<Rightarrow> False
          | c # r \<Rightarrow> c = CHR ''<'' \<and> r \<noteq> [] \<and> closingIndex (CHR ''<'') (CHR ''>'') 0 r = Some (length r - 1)))"

fun endsWithTemplateClause :: "string \<Rightarrow> string \<Rightarrow> bool" where
  "endsWithTemplateClause pre [] = False"
| "endsWithTemplateClause pre (c # cs) =
     (templateClauseAt pre (c # cs) \<or> endsWithTemplateClause (c # pre) cs)"

definition templateClausePrecedes :: "CSymbol \<Rightarrow> bool" where
  "templateClausePrecedes c =
     endsWithTemplateClause []
       (trimEnd (maskQuotes
          (maskComments (getText (document c) (newRange (Position 0 0) (start (range' (symbol c))))) False)
          False))"





text \<open>The same function template in a header that starts with it.\<close>

definition bareIdentityHeader :: TextDocument where
  "bareIdentityHeader = TextDocument ''/identity.h''
     (''template <typename T>'' @ [LF] @ ''T identity(T t);'')"

definition bareIdentityFunction :: CSymbol where
  "bareIdentityFunction = CSymbol_new
     (SourceSymbol ''/identity.h'' ''identity'' [] Function (Range (Position 1 0) (Position 1 15))
        (Range (Position 1 2) (Position 1 10)) ''identity'' None [])
     bareIdentityHeader None"

text \<open>The number of semicolons the constructor of CSymbol steps over at the end of a symbol.\<close>

definition semicolonsAfter :: "TextDocument \<Rightarrow> SourceSymbol \<Rightarrow> nat" where
  "semicolonsAfter doc s =
     character (util_getEndOfStatement doc (end' (range' s))) - character (end' (range' s))"

text \<open>
  \<^verbatim>\<open>new CSymbol(symbol, document, parent)\<close> for a symbol of the provider: the constructor of
  SourceSymbol builds the fields and the array of the children with the CSymbol as
  \<^verbatim>\<open>this\<close>, the parent is the argument, and the range ends at the end of the statement.
\<close>

definition CSymbol_new_provider ::
  "(string \<Rightarrow> string) \<Rightarrow> DocumentSymbol \<Rightarrow> TextDocument \<Rightarrow> CSymbol option \<Rightarrow> CSymbol" where
  "CSymbol_new_provider getNormalizedSymbolName d doc parentArg =
     (case SourceSymbol_new getNormalizedSymbolName (doc_uri doc) (map_option symbol parentArg) d of
        SourceSymbol u n dt k r sr sg par cs \<Rightarrow>
          CSymbol
            (SourceSymbol u n dt k (rangeWith r (start r) (util_getEndOfStatement doc (end' r))) sr sg
               (map_option symbol parentArg) cs)
            doc)"

text \<open>The declaration \<^verbatim>\<open>void foo(int x = 5);\<close>, reported without its semicolon.\<close>

definition fooHeader :: TextDocument where
  "fooHeader = TextDocument ''/foo.h'' ''void foo(int x = 5);''"

definition fooReported :: SourceSymbol where
  "fooReported = SourceSymbol ''/foo.h'' ''foo'' [] Function (Range (Position 0 0) (Position 0 19))
     (Range (Position 0 5) (Position 0 8)) ''foo'' None []"

definition fooDeclaration :: CSymbol where
  "fooDeclaration = CSymbol_new fooReported fooHeader None"

text \<open>
  A definition of \<^verbatim>\<open>foo\<close> as the text of a source file, with the symbol a provider reports
  for it: the whole text is its range.
\<close>

definition fooDefinition :: "string \<Rightarrow> CSymbol" where
  "fooDefinition t =
     CSymbol_new
       (SourceSymbol ''/foo.cpp'' ''foo'' [] Function
          (Range (Position 0 0) (positionAt (TextDocument ''/foo.cpp'' t) (length t)))
          (Range (Position 0 5) (Position 0 8)) ''foo'' None [])
       (TextDocument ''/foo.cpp'' t) None"

text \<open>
  A declaration made by a macro: the provider reports the function \<^verbatim>\<open>onClick\<close> with its name
  inside the parentheses of the macro call.
\<close>

definition handlerHeader :: TextDocument where
  "handlerHeader = TextDocument ''/handler.h'' ''DECLARE_HANDLER(onClick);''"

definition handlerDeclaration :: CSymbol where
  "handlerDeclaration = CSymbol_new
     (SourceSymbol ''/handler.h'' ''onClick'' [] Function (Range (Position 0 0) (Position 0 25))
        (Range (Position 0 16) (Position 0 23)) ''onClick'' None [])
     handlerHeader None"

text \<open>\<^verbatim>\<open>void foo(int x;\<close>: a parameter list that nothing closes.\<close>

definition unclosedDeclaration :: CSymbol where
  "unclosedDeclaration = CSymbol_new
     (SourceSymbol ''/foo.h'' ''foo'' [] Function (Range (Position 0 0) (Position 0 15))
        (Range (Position 0 5) (Position 0 8)) ''foo'' None [])
     (TextDocument ''/foo.h'' ''void foo(int x;'') None"

text \<open>
  A source file with a block of one system include, a blank line, a block of two system
  includes, a blank line and a variable; and an environment that knows no symbols.
\<close>

definition twoBlocks :: SourceDocument where
  "twoBlocks = SourceDocument
     (TextDocument ''/blocks.cpp''
        (''#include <a>'' @ [LF, LF] @ ''#include <b>'' @ [LF] @ ''#include <c>'' @ [LF, LF]
         @ ''int x;'' @ [LF]))
     None"

definition noSymbols :: Environment where
  "noSymbols = Environment (\<lambda>u. []) (\<lambda>s. None) (\<lambda>u p. None) (\<lambda>u s. None)"

section \<open>Verified properties\<close>

subsection \<open>The symbol tree\<close>

lemma range_SourceSymbol_new: "range' (SourceSymbol_new f u par d) = ds_range d"
  by (cases d) (simp add: Let_def)

lemma startsInOrder_eq:
  "startsInOrder = (\<lambda>a b. isBeforeOrEqual (start (ds_range a)) (start (ds_range b)))"
  by (simp add: fun_eq_iff startsInOrder_def)

lemma startsInOrder_trans: "startsInOrder a b \<Longrightarrow> startsInOrder b c \<Longrightarrow> startsInOrder a c"
  by (auto simp: startsInOrder_def isBeforeOrEqual_def)

lemma sortByRange_le: "sortByRange x y \<le> 0 \<Longrightarrow> startsInOrder x y"
  by (cases "start (ds_range x)"; cases "start (ds_range y)")
     (auto simp: sortByRange_def startsInOrder_def isBeforeOrEqual_def isBefore_def split: if_splits)

lemma sortByRange_gt: "\<not> sortByRange x y \<le> 0 \<Longrightarrow> startsInOrder y x"
  by (auto simp: sortByRange_def startsInOrder_def isBeforeOrEqual_def isBefore_def split: if_splits)

lemma sorted_insertSorted:
  "sorted_wrt startsInOrder ys \<Longrightarrow> sorted_wrt startsInOrder (insertSorted sortByRange x ys)"
proof (induction ys)
  case Nil
  then show ?case by simp
next
  case (Cons y ys)
  show ?case
  proof (cases "sortByRange x y \<le> 0")
    case True
    then have "startsInOrder x y" by (rule sortByRange_le)
    with Cons.prems have "\<forall>z\<in>set ys. startsInOrder x z"
      by (auto intro: startsInOrder_trans)
    with True Cons.prems \<open>startsInOrder x y\<close> show ?thesis by simp
  next
    case False
    then have "startsInOrder y x" by (rule sortByRange_gt)
    with False Cons show ?thesis
      by (auto simp: set_insertSorted)
  qed
qed

lemma sorted_sort_js: "sorted_wrt startsInOrder (sort_js sortByRange xs)"
  by (induction xs) (simp_all add: sort_js_def sorted_insertSorted)

lemma childrenSorted_SourceSymbol_new: "childrenSorted (SourceSymbol_new f u par d)"
proof (induction f u par d rule: SourceSymbol_new.induct)
  case (1 f u par n d k r sr cs)
  have "sorted_wrt startsInOrder (sort_js sortByRange cs)"
    by (rule sorted_sort_js)
  then have s: "sorted_wrt (\<lambda>a b. isBeforeOrEqual (start (range' a)) (start (range' b)))
      (map (SourceSymbol_new f u p') (sort_js sortByRange cs))" for p'
    by (simp add: sorted_wrt_map range_SourceSymbol_new startsInOrder_eq)
  from 1 show ?case
    by (simp add: Let_def s list_all_iff)
qed

lemma childrenContained_SourceSymbol_new:
  "childrenContained (SourceSymbol_new f u par d) = providerContained d"
proof (induction f u par d rule: SourceSymbol_new.induct)
  case (1 f u par n d k r sr cs)
  then show ?case
    by (simp add: Let_def list_all_iff range_SourceSymbol_new set_sort_js)
qed

text \<open>
  C2, as the spec states it, fails: the constructor copies every range from the provider's
  symbol and compares no child's range with its parent's. A struct reported on lines 0 to
  2 with a field reported on line 5 is built as it is reported.
\<close>

theorem C2_child_outside_parent:
  "\<not> (childrenSorted (SourceSymbol_new (\<lambda>n. n) ''/a.h'' None
          (DocumentSymbol ''S'' '''' Struct
             (Range (Position 0 0) (Position 2 1)) (Range (Position 0 7) (Position 0 8))
             [DocumentSymbol ''x'' '''' Field
                (Range (Position 5 0) (Position 5 6)) (Range (Position 5 4) (Position 5 5)) []]))
      \<and> childrenContained (SourceSymbol_new (\<lambda>n. n) ''/a.h'' None
          (DocumentSymbol ''S'' '''' Struct
             (Range (Position 0 0) (Position 2 1)) (Range (Position 0 7) (Position 0 8))
             [DocumentSymbol ''x'' '''' Field
                (Range (Position 5 0) (Position 5 6)) (Range (Position 5 4) (Position 5 5)) []])))"
  by (simp only: childrenContained_SourceSymbol_new)
     (simp add: contains_def containsPosition_def isBeforeOrEqual_def)

text \<open>
  C2, amended: in every tree the constructor builds, each node's children are in
  non-decreasing order of range start, and the tree has every child's range inside its
  parent's exactly when the provider's tree has.
\<close>

theorem C2_children_sorted_ranges_as_reported:
  "childrenSorted (SourceSymbol_new f u par d)
   \<and> (childrenContained (SourceSymbol_new f u par d) = providerContained d)"
  by (simp add: childrenSorted_SourceSymbol_new childrenContained_SourceSymbol_new)

subsection \<open>Parents and children\<close>

lemma parent_withParent: "parent (withParent p c) = p"
  by (cases c) simp

lemma range_withParent: "range' (withParent p c) = range' c"
  by (cases c) simp

lemma parent_SourceSymbol_new: "parent (SourceSymbol_new f u par d) = par"
  by (cases d) (simp add: Let_def)

text \<open>
  In a tree the constructor builds, the parent of every child of a symbol is that symbol,
  with all its children; the children read from a symbol are in the order of the array and
  have the ranges the provider reported.
\<close>

lemma parent_of_built_child:
  assumes "c \<in> set (children (SourceSymbol_new f u par d))"
  shows "parent c = Some (SourceSymbol_new f u par d)"
proof (cases d)
  case (DocumentSymbol n dt k r sr cs)
  with assms show ?thesis
    by (auto simp: children_def Let_def parent_SourceSymbol_new parent_withParent)
qed

lemma ranges_of_built_children:
  "map range' (children (SourceSymbol_new f u par d)) = map ds_range (sort_js sortByRange (ds_children d))"
proof (cases d)
  case (DocumentSymbol n dt k r sr cs)
  then show ?thesis
    by (simp add: children_def Let_def parent_SourceSymbol_new range_withParent range_SourceSymbol_new
          comp_def)
qed

lemma ranges_of_children: "map range' (children s) = map range' (childrenArray s)"
  by (auto simp: children_def range_withParent split: option.splits)

text \<open>
  The two properties of a tree say the same of the children read from a symbol as of the
  array: the children of every symbol are in the order of their starts, and in its range.
\<close>

lemma childrenSorted_withParent: "childrenSorted (withParent p c) = childrenSorted c"
  by (cases c) simp

lemma childrenContained_withParent: "childrenContained (withParent p c) = childrenContained c"
  by (cases c) simp

lemma range_closed:
  "range' (case parent c of None \<Rightarrow> c
           | Some p \<Rightarrow> if childrenArray p = [] then withParent (Some s) c else c) = range' c"
  by (simp add: range_withParent split: option.splits)

lemma childrenSorted_children:
  "childrenSorted s =
     (sorted_wrt (\<lambda>a b. isBeforeOrEqual (start (range' a)) (start (range' b))) (children s)
      \<and> list_all childrenSorted (children s))"
proof (cases s)
  case (SourceSymbol u n d k r sr sg p cs)
  have a: "sorted_wrt (\<lambda>a b. isBeforeOrEqual (start (range' a)) (start (range' b))) (children s)
      = sorted_wrt (\<lambda>a b. isBeforeOrEqual (start (range' a)) (start (range' b))) cs"
    unfolding children_def sorted_wrt_map SourceSymbol
    by (simp add: range_closed)
  have b: "list_all childrenSorted (children s) = list_all childrenSorted cs"
    unfolding children_def SourceSymbol
    by (auto simp: list_all_iff childrenSorted_withParent split: option.splits)
  from a b show ?thesis
    unfolding SourceSymbol by simp
qed

lemma childrenContained_children:
  "childrenContained s =
     (list_all (\<lambda>c. contains (range' s) (range' c)) (children s)
      \<and> list_all childrenContained (children s))"
proof (cases s)
  case (SourceSymbol u n d k r sr sg p cs)
  have a: "list_all (\<lambda>c. contains (range' s) (range' c)) (children s)
      = list_all (\<lambda>c. contains r (range' c)) cs"
    unfolding children_def SourceSymbol
    by (auto simp: list_all_iff range_withParent split: option.splits)
  have b: "list_all childrenContained (children s) = list_all childrenContained cs"
    unfolding children_def SourceSymbol
    by (auto simp: list_all_iff childrenContained_withParent split: option.splits)
  from a b show ?thesis
    unfolding SourceSymbol by simp
qed

text \<open>A child that is read has no parent reference left open.\<close>

lemma children_closed:
  assumes "c \<in> set (children s)"
  shows "parent c = None \<or> (\<exists>p. parent c = Some p \<and> childrenArray p \<noteq> [])"
proof -
  from assms obtain x where x: "x \<in> set (childrenArray s)"
    and c: "c = (case parent x of None \<Rightarrow> x
                 | Some p \<Rightarrow> if childrenArray p = [] then withParent (Some s) x else x)"
    by (auto simp: children_def)
  from x have "childrenArray s \<noteq> []" by auto
  with c show ?thesis
    by (auto simp: parent_withParent split: option.splits if_splits)
qed

text \<open>The children of a CSymbol are the children of the SourceSymbol it was made of.\<close>

lemma children_CSymbol_fields: "children (CSymbol_fields doc p s) = children s"
proof -
  have a: "childrenArray (CSymbol_fields doc p s) = children s"
    by (induction doc p s rule: CSymbol_fields.induct) simp_all
  have "map (\<lambda>c. case parent c of None \<Rightarrow> c
                 | Some q \<Rightarrow> if childrenArray q = [] then withParent (Some (CSymbol_fields doc p s)) c else c)
          (children s) = children s"
    by (intro map_idI) (auto dest: children_closed split: option.splits)
  with a show ?thesis
    by (simp add: children_def [of "CSymbol_fields doc p s"])
qed

lemma children_CSymbol_new: "children (symbol (CSymbol_new s doc parentArg)) = children s"
  by (simp add: CSymbol_new_def children_CSymbol_fields)

text \<open>The siblings of a child of a built tree are the children of its parent, itself among them.\<close>

lemma siblings_of_built_child:
  assumes "c \<in> set (children (SourceSymbol_new f u par d))"
  shows "siblingsOf env this c = children (SourceSymbol_new f u par d)"
  using parent_of_built_child [OF assms] by (simp add: siblingsOf_def)

lemma circle_children:
  "map name (children circleTree) = [''area'', ''move'', ''draw'']
   \<and> map parent (children circleTree) = [Some circleTree, Some circleTree, Some circleTree]
   \<and> map signature (children circleTree) = [''Circle::area'', ''Circle::move'', ''Circle::draw'']
   \<and> map parent (children (symbol (CSymbol_new circleTree circleHeader None)))
       = [Some circleTree, Some circleTree, Some circleTree]"
  by code_simp

subsection \<open>Offsets, positions and the end of a statement\<close>

lemma offsetAt_in_le_length: "offsetAt_in t l c \<le> length t"
  by (induction t l c rule: offsetAt_in.induct) auto

lemma offsetAt_in_mono_char: "c \<le> c' \<Longrightarrow> offsetAt_in t l c \<le> offsetAt_in t l c'"
proof (induction t l c arbitrary: c' rule: offsetAt_in.induct)
  case (3 x xs c)
  then show ?case by (cases c') auto
qed auto

lemma offsetAt_in_line0_le: "offsetAt_in t 0 c \<le> offsetAt_in t (Suc l) c'"
proof (induction t "0::nat" c arbitrary: l c' rule: offsetAt_in.induct)
  case (3 x xs c)
  then show ?case by (cases c') auto
qed auto

lemma offsetAt_in_mono_line: "l < l' \<Longrightarrow> offsetAt_in t l c \<le> offsetAt_in t l' c'"
proof (induction t l c arbitrary: l' c' rule: offsetAt_in.induct)
  case (1 l c)
  then show ?case by simp
next
  case (2 x xs)
  then show ?case by simp
next
  case (3 x xs c)
  then obtain k where "l' = Suc k" by (cases l') auto
  then show ?case using offsetAt_in_line0_le [of "x # xs" "Suc c" k c'] by simp
next
  case (4 x xs l c)
  then obtain k where k: "l' = Suc k" "l < k" by (cases l') auto
  with 4 show ?case by auto
qed

lemma offsetAt_mono: "isBeforeOrEqual p q \<Longrightarrow> offsetAt doc p \<le> offsetAt doc q"
  by (auto simp: isBeforeOrEqual_def offsetAt_def intro: offsetAt_in_mono_line offsetAt_in_mono_char)

lemma getText_append:
  assumes "offsetAt doc p \<le> offsetAt doc q" "offsetAt doc q \<le> offsetAt doc r"
  shows "getText doc (Range p q) @ getText doc (Range q r) = getText doc (Range p r)"
proof -
  define a where "a = offsetAt doc p"
  define b where "b = offsetAt doc q"
  define c where "c = offsetAt doc r"
  define t where "t = doc_text doc"
  have ab: "a \<le> b" and bc: "b \<le> c" using assms by (simp_all add: a_def b_def c_def)
  have "take (b - a) (drop a t) @ take (c - b) (drop b t) = take (c - a) (drop a t)"
  proof -
    have "drop b t = drop (b - a) (drop a t)" using ab by simp
    moreover have "c - a = (b - a) + (c - b)" using ab bc by simp
    ultimately show ?thesis by (simp add: take_add)
  qed
  then show ?thesis
    by (simp add: getText_def Let_def a_def b_def c_def t_def)
qed

lemma getEndOfStatement_stops:
  "getText doc (newRange (getEndOfStatement doc p) (translate (getEndOfStatement doc p) 0 1)) \<noteq> '';''"
proof (induction doc p rule: getEndOfStatement.induct)
  case (1 doc position)
  show ?case
  proof (cases "getText doc (newRange position (translate position 0 1)) = '';''")
    case True
    with 1 show ?thesis
      by (subst (1 2) getEndOfStatement.simps) (simp add: Let_def)
  next
    case False
    then show ?thesis
      by (subst (1 2) getEndOfStatement.simps) (simp add: Let_def)
  qed
qed

lemma getEndOfStatement_line:
  "line (getEndOfStatement doc p) = line p \<and> character p \<le> character (getEndOfStatement doc p)"
proof (induction doc p rule: getEndOfStatement.induct)
  case (1 doc position)
  show ?case
  proof (cases "getText doc (newRange position (translate position 0 1)) = '';''")
    case True
    with 1 show ?thesis
      by (subst (1 2) getEndOfStatement.simps) (simp add: Let_def translate_def)
  next
    case False
    then show ?thesis
      by (subst (1 2) getEndOfStatement.simps) (simp add: Let_def)
  qed
qed

lemma getEndOfStatement_after: "isBeforeOrEqual p (getEndOfStatement doc p)"
  using getEndOfStatement_line [of doc p] by (simp add: isBeforeOrEqual_def)

lemma newRange_translate: "newRange p (translate p 0 (Suc 0)) = Range p (translate p 0 (Suc 0))"
  by (simp add: newRange_def translate_def isBefore_def)

lemma getEndOfStatement_semicolons:
  "getText doc (Range p (getEndOfStatement doc p))
     = replicate (character (getEndOfStatement doc p) - character p) (CHR '';'')"
proof (induction doc p rule: getEndOfStatement.induct)
  case (1 doc position)
  let ?n = "translate position 0 (Suc 0)"
  show ?case
  proof (cases "getText doc (newRange position (translate position 0 1)) = '';''")
    case True
    then have e: "getEndOfStatement doc position = getEndOfStatement doc ?n"
      by (subst getEndOfStatement.simps) (simp add: Let_def)
    from True have one: "getText doc (Range position ?n) = '';''"
      by (simp add: newRange_translate)
    have le1: "offsetAt doc position \<le> offsetAt doc ?n"
      by (rule offsetAt_mono) (simp add: isBeforeOrEqual_def translate_def)
    have le2: "offsetAt doc ?n \<le> offsetAt doc (getEndOfStatement doc ?n)"
      by (rule offsetAt_mono) (rule getEndOfStatement_after)
    from 1 True have ih: "getText doc (Range ?n (getEndOfStatement doc ?n))
        = replicate (character (getEndOfStatement doc ?n) - character ?n) (CHR '';'')"
      by (simp add: Let_def)
    have ch: "Suc (character position) \<le> character (getEndOfStatement doc ?n)"
      using getEndOfStatement_line [of doc ?n] by (simp add: translate_def)
    have "getText doc (Range position (getEndOfStatement doc ?n))
        = getText doc (Range position ?n) @ getText doc (Range ?n (getEndOfStatement doc ?n))"
      using getText_append [OF le1 le2] by simp
    also have "\<dots> = CHR '';'' # replicate (character (getEndOfStatement doc ?n) - character ?n) (CHR '';'')"
      by (simp add: one ih)
    also have "\<dots> = replicate (character (getEndOfStatement doc ?n) - character position) (CHR '';'')"
      using ch by (simp add: translate_def Suc_diff_Suc flip: replicate_Suc)
    finally show ?thesis
      by (simp add: e)
  next
    case False
    then have "getEndOfStatement doc position = position"
      by (subst getEndOfStatement.simps) (simp add: Let_def)
    then show ?thesis
      by (simp add: getText_def)
  qed
qed

subsection \<open>Stripping default values\<close>

text \<open>
  C6: \<^verbatim>\<open>stripDefaultValues\<close> turns \<^verbatim>\<open>int a = 1, std::vector<int> b = {1,2}, int c\<close> into
  \<^verbatim>\<open>int a, std::vector<int> b, int c\<close>. Each default value goes from its equals sign on,
  the comma between the braces separates no parameters, and the parameter without a default
  stays as it is.
\<close>

theorem C6_stripDefaultValues_example:
  "stripDefaultValues ''int a = 1, std::vector<int> b = {1,2}, int c''
     = ''int a, std::vector<int> b, int c''"
  by code_simp

subsection \<open>The command updateSignature\<close>

text \<open>
  C9: when the document linked to has no symbol at the linked location, or the symbol there
  lacks the complementary role (it is not a definition while the current function is a
  declaration, or not a declaration otherwise), or its name differs from the current
  function's, \<^verbatim>\<open>updateSignature\<close> shows one alert, returns \<^verbatim>\<open>undefined\<close>, and builds and
  applies no edit.
\<close>

theorem C9_mismatch_alerts_and_edits_nothing:
  assumes "linkMismatch currentFunction
             (getSymbol (lookups ws) (linkedDocument ws sourceDoc linkedLocation)
                (start (loc_range linkedLocation)))"
  shows "updateSignature ws currentFunction sourceDoc linkedLocation
           = Outcome None
               [if isFunctionDeclaration currentFunction
                then ''The linked definition could not be found.''
                else ''The linked declaration could not be found.'']
               None"
  using assms
  by (auto simp: updateSignature_def linkMismatch_def linkedDocument_def Let_def
           split: option.splits if_splits)

text \<open>Without such a mismatch the command shows no alert and hands an edit to \<^verbatim>\<open>applyEdit\<close>.\<close>

lemma updateSignature_match:
  assumes "\<not> linkMismatch currentFunction
             (getSymbol (lookups ws) (linkedDocument ws sourceDoc linkedLocation)
                (start (loc_range linkedLocation)))"
  shows "alerts (updateSignature ws currentFunction sourceDoc linkedLocation) = []
         \<and> workspaceEdit (updateSignature ws currentFunction sourceDoc linkedLocation) \<noteq> None"
  using assms
  by (auto simp: updateSignature_def linkMismatch_def linkedDocument_def Let_def syncReturnType_def
           split: option.splits if_splits)

text \<open>
  A declaration of \<^verbatim>\<open>foo\<close> in a header, linked to a place of the source file where the
  symbol is the definition of \<^verbatim>\<open>bar\<close>.
\<close>

theorem C9_mismatch_witness:
  "linkMismatch fooInHeader
     (getSymbol (lookups workspaceFoo)
        (linkedDocument workspaceFoo headerFoo (Location ''/foo.cpp'' (Range (Position 0 0) (Position 2 1))))
        (start (loc_range (Location ''/foo.cpp'' (Range (Position 0 0) (Position 2 1))))))
   \<and> updateSignature workspaceFoo fooInHeader headerFoo
        (Location ''/foo.cpp'' (Range (Position 0 0) (Position 2 1)))
      = Outcome None [''The linked definition could not be found.''] None"
proof -
  have h: "linkMismatch fooInHeader
     (getSymbol (lookups workspaceFoo)
        (linkedDocument workspaceFoo headerFoo (Location ''/foo.cpp'' (Range (Position 0 0) (Position 2 1))))
        (start (loc_range (Location ''/foo.cpp'' (Range (Position 0 0) (Position 2 1))))))"
    by code_simp
  have d: "isFunctionDeclaration fooInHeader"
    by code_simp
  from C9_mismatch_alerts_and_edits_nothing [OF h] d h show ?thesis
    by simp
qed

subsection \<open>The setter of a member variable\<close>

text \<open>
  The expression \<^verbatim>\<open>/\b(static|mutable)\b\s*/g\<close> of \<^verbatim>\<open>Setter.create\<close> against the words of the
  claim: replacing its matches by nothing takes the words \<^verbatim>\<open>static\<close> and \<^verbatim>\<open>mutable\<close> out of
  a text, with the whitespace after them, and nothing else. First the row of words of a
  text, then the expression at the start of a word, inside a word and at another
  character, then the replacement as a whole.
\<close>

lemma whitespace_not_word: "isWhitespace c \<Longrightarrow> \<not> isWordChar c"
  by (auto simp: isWhitespace_def isWordChar_def)

lemma splitWords_nonempty: "[] \<notin> set (splitWords s)"
  by (induction s) (auto split: list.splits)

lemma splitWords_Cons: "splitWords (c # cs) \<noteq> []"
  by (simp split: list.splits)

lemma splitWords_first: "splitWords (c # cs) = t # ts \<Longrightarrow> \<exists>t'. t = c # t'"
  by (auto split: list.splits if_splits)

lemma splitWords_other: "\<not> isWordChar c \<Longrightarrow> splitWords (c # rest) = [c] # splitWords rest"
  by (auto split: list.splits)

lemma splitWords_word:
  assumes "isWord w" "\<not> wordBefore rest"
  shows "splitWords (w @ rest) = w # splitWords rest"
  using assms
proof (induction w)
  case Nil
  then show ?case by (simp add: isWord_def)
next
  case (Cons c w)
  show ?case
  proof (cases w)
    case Nil
    show ?thesis
    proof (cases rest)
      case Nil
      with \<open>w = []\<close> show ?thesis by simp
    next
      case (Cons r rs)
      with Cons.prems have "\<not> isWordChar r" by (simp add: wordBefore_def)
      moreover obtain t ts where "splitWords (r # rs) = t # ts"
        using splitWords_Cons [of r rs] by (cases "splitWords (r # rs)") blast+
      moreover from this obtain t' where "t = r # t'" using splitWords_first by blast
      ultimately show ?thesis using \<open>w = []\<close> Cons by simp
    qed
  next
    case (Cons d w')
    with Cons.prems Cons.IH show ?thesis
      by (auto simp: isWord_def)
  qed
qed

lemma splitWords_whitespace:
  "list_all isWhitespace ws \<Longrightarrow> splitWords (ws @ rest) = map (\<lambda>c. [c]) ws @ splitWords rest"
proof (induction ws)
  case Nil
  then show ?case by simp
next
  case (Cons c ws)
  then have "\<not> isWordChar c" by (simp add: whitespace_not_word)
  then have "splitWords (c # ws @ rest) = [c] # splitWords (ws @ rest)"
    by (rule splitWords_other)
  with Cons show ?case by simp
qed

lemma withoutWords_whitespace:
  assumes "\<forall>k\<in>set ks. isWord k"
  shows "list_all isWhitespace ws \<Longrightarrow> withoutWords ks True (map (\<lambda>c. [c]) ws @ ts) = withoutWords ks True ts"
proof (induction ws)
  case Nil
  then show ?case by simp
next
  case (Cons c ws)
  then have "\<not> isWordChar c" by (simp add: whitespace_not_word)
  then have "[c] \<notin> set ks" using assms by (auto simp: isWord_def)
  with Cons show ?case by simp
qed

lemma withoutWords_afterOne:
  assumes "\<not> (case s of [] \<Rightarrow> False | c # cs \<Rightarrow> isWhitespace c)"
  shows "withoutWords ks True (splitWords s) = withoutWords ks False (splitWords s)"
proof (cases s)
  case Nil
  then show ?thesis by simp
next
  case (Cons c cs)
  obtain t ts where t: "splitWords (c # cs) = t # ts"
    using splitWords_Cons [of c cs] by (cases "splitWords (c # cs)") blast+
  then obtain t' where "t = c # t'" using splitWords_first by blast
  with assms Cons t show ?thesis by simp
qed

lemma keywordAt_after_word: "wordBefore pre \<Longrightarrow> keywordAt ks pre s = None"
  by (induction ks) simp_all

lemma keywordAt_at_other:
  assumes "\<forall>k\<in>set ks. isWord k" "\<not> wordBefore s"
  shows "keywordAt ks pre s = None"
  using assms
proof (induction ks)
  case Nil
  then show ?case by simp
next
  case (Cons k ks)
  then obtain c k' where k: "k = c # k'" "isWordChar c"
    by (cases k) (auto simp: isWord_def)
  with Cons.prems have "\<not> startsWith s k"
    by (cases s) (auto simp: startsWith_def wordBefore_def)
  with Cons show ?case by simp
qed

lemma word_is_keyword:
  assumes w: "isWord w" and k: "isWord k" and r: "\<not> wordBefore rest"
    and s: "startsWith (w @ rest) k" and d: "\<not> wordBefore (drop (length k) (w @ rest))"
  shows "k = w"
proof -
  from s have t: "take (length k) w @ take (length k - length w) rest = k"
    by (simp add: startsWith_def)
  have "\<not> length k < length w"
  proof
    assume l: "length k < length w"
    then obtain x xs where x: "drop (length k) w = x # xs"
      by (cases "drop (length k) w") auto
    then have "x \<in> set w" by (metis in_set_dropD list.set_intros(1))
    with w have "isWordChar x" by (simp add: isWord_def list_all_iff)
    with d l x show False by (simp add: wordBefore_def)
  qed
  moreover have "\<not> length w < length k"
  proof
    assume l: "length w < length k"
    show False
    proof (cases rest)
      case Nil
      with t have "take (length k) w = k" by simp
      then have "length (take (length k) w) = length k" by (rule arg_cong)
      with l show False by simp
    next
      case (Cons x xs)
      with r have nx: "\<not> isWordChar x" by (simp add: wordBefore_def)
      from l obtain n where n: "length k - length w = Suc n" by (cases "length k - length w") auto
      with t l Cons have "w @ x # take n xs = k" by simp
      then have "x \<in> set k" by auto
      with k nx show False by (simp add: isWord_def list_all_iff)
    qed
  qed
  ultimately have "length k = length w" by simp
  with t show ?thesis by simp
qed

lemma keywordAt_at_word:
  assumes "\<forall>k\<in>set ks. isWord k" "isWord w" "\<not> wordBefore pre" "\<not> wordBefore rest"
  shows "keywordAt ks pre (w @ rest) = (if w \<in> set ks then Some (length w) else None)"
  using assms(1)
proof (induction ks)
  case Nil
  then show ?case by simp
next
  case (Cons k ks)
  show ?case
  proof (cases "k = w")
    case True
    with assms show ?thesis by (simp add: startsWith_def)
  next
    case False
    then have "\<not> (startsWith (w @ rest) k \<and> \<not> wordBefore (drop (length k) (w @ rest)))"
      using word_is_keyword [of w k rest] assms(2,4) Cons.prems by auto
    with False Cons show ?thesis by auto
  qed
qed

lemma replaceAll_scan_skip:
  "replaceAll_scan m f pre (xs @ ys) (length xs) = replaceAll_scan m f (rev xs @ pre) ys 0"
  by (induction xs arbitrary: pre) simp_all

lemma scan_inside_word:
  "list_all isWordChar w \<Longrightarrow> wordBefore pre \<Longrightarrow>
   replaceAll_scan (re_keywordsThenSpace ks) f pre (w @ rest) 0
     = w @ replaceAll_scan (re_keywordsThenSpace ks) f (rev w @ pre) rest 0"
proof (induction w arbitrary: pre)
  case Nil
  then show ?case by simp
next
  case (Cons c w)
  then have "wordBefore (c # pre)" by (simp add: wordBefore_def)
  with Cons show ?case
    by (simp add: re_keywordsThenSpace_def keywordAt_after_word)
qed

lemma scan_other:
  assumes "\<forall>k\<in>set ks. isWord k" "\<not> isWordChar c"
  shows "replaceAll_scan (re_keywordsThenSpace ks) f pre (c # rest) 0
     = c # replaceAll_scan (re_keywordsThenSpace ks) f (c # pre) rest 0"
proof -
  from assms(2) have "\<not> wordBefore (c # rest)" by (simp add: wordBefore_def)
  with assms(1) have "keywordAt ks pre (c # rest) = None" by (rule keywordAt_at_other)
  then show ?thesis by (simp add: re_keywordsThenSpace_def)
qed

lemma scan_word_kept:
  assumes "\<forall>k\<in>set ks. isWord k" "isWord w" "\<not> wordBefore pre" "\<not> wordBefore rest" "w \<notin> set ks"
  shows "replaceAll_scan (re_keywordsThenSpace ks) f pre (w @ rest) 0
     = w @ replaceAll_scan (re_keywordsThenSpace ks) f (rev w @ pre) rest 0"
proof -
  from assms(2) obtain c w' where w: "w = c # w'" "isWordChar c" "list_all isWordChar w'"
    by (cases w) (auto simp: isWord_def)
  have "keywordAt ks pre (w @ rest) = None"
    using keywordAt_at_word [OF assms(1-4)] assms(5) by simp
  then have "replaceAll_scan (re_keywordsThenSpace ks) f pre (w @ rest) 0
      = c # replaceAll_scan (re_keywordsThenSpace ks) f (c # pre) (w' @ rest) 0"
    using w by (simp add: re_keywordsThenSpace_def)
  also have "replaceAll_scan (re_keywordsThenSpace ks) f (c # pre) (w' @ rest) 0
      = w' @ replaceAll_scan (re_keywordsThenSpace ks) f (rev w' @ c # pre) rest 0"
    using w by (intro scan_inside_word) (simp_all add: wordBefore_def)
  finally show ?thesis using w by simp
qed

lemma scan_word_dropped:
  assumes "\<forall>k\<in>set ks. isWord k" "isWord w" "\<not> wordBefore pre" "\<not> wordBefore rest" "w \<in> set ks"
  shows "replaceAll_scan (re_keywordsThenSpace ks) (\<lambda>m. []) pre (w @ rest) 0
     = replaceAll_scan (re_keywordsThenSpace ks) (\<lambda>m. [])
         (rev (w @ takeWhile isWhitespace rest) @ pre) (dropWhile isWhitespace rest) 0"
proof -
  from assms(2) obtain c w' where w: "w = c # w'"
    by (cases w) (auto simp: isWord_def)
  let ?ws = "takeWhile isWhitespace rest"
  have "keywordAt ks pre (w @ rest) = Some (length w)"
    using keywordAt_at_word [OF assms(1-4)] assms(5) by simp
  then have m: "re_keywordsThenSpace ks pre (c # w' @ rest) = Some (Suc (length (w' @ ?ws)))"
    using w by (simp add: re_keywordsThenSpace_def whitespaceRun_def)
  have "replaceAll_scan (re_keywordsThenSpace ks) (\<lambda>m. []) pre (w @ rest) 0
      = replaceAll_scan (re_keywordsThenSpace ks) (\<lambda>m. []) (c # pre) (w' @ rest) (length (w' @ ?ws))"
    using m w by simp
  also have "w' @ rest = (w' @ ?ws) @ dropWhile isWhitespace rest"
    by simp
  also have "replaceAll_scan (re_keywordsThenSpace ks) (\<lambda>m. []) (c # pre)
        ((w' @ ?ws) @ dropWhile isWhitespace rest) (length (w' @ ?ws))
      = replaceAll_scan (re_keywordsThenSpace ks) (\<lambda>m. []) (rev (w' @ ?ws) @ c # pre)
          (dropWhile isWhitespace rest) 0"
    by (rule replaceAll_scan_skip)
  finally show ?thesis using w by simp
qed

lemma dropWhile_first: "\<not> (case dropWhile P xs of [] \<Rightarrow> False | c # cs \<Rightarrow> P c)"
  by (induction xs) auto

lemma wordBefore_rev: "ws \<noteq> [] \<Longrightarrow> wordBefore (rev ws @ pre) = isWordChar (last ws)"
  by (induction ws rule: rev_induct) (simp_all add: wordBefore_def)

lemma word_and_rest:
  assumes "wordBefore s"
  shows "isWord (takeWhile isWordChar s) \<and> \<not> wordBefore (dropWhile isWordChar s)
         \<and> length (dropWhile isWordChar s) < length s"
proof -
  from assms obtain c cs where s: "s = c # cs" "isWordChar c"
    by (cases s) (auto simp: wordBefore_def)
  have "\<not> wordBefore (dropWhile isWordChar s)"
  proof (cases "dropWhile isWordChar s")
    case Nil
    show ?thesis unfolding Nil wordBefore_def by simp
  next
    case (Cons x xs)
    with hd_dropWhile [of isWordChar s] have "\<not> isWordChar x" by simp
    then show ?thesis unfolding Cons wordBefore_def by simp
  qed
  moreover have "list_all isWordChar (takeWhile isWordChar s)"
    by (simp add: list_all_iff) (metis set_takeWhileD)
  moreover have "length (dropWhile isWordChar s) \<le> length cs"
    using s length_dropWhile_le [of isWordChar cs] by simp
  ultimately show ?thesis using s by (simp add: isWord_def)
qed

lemma scan_words:
  assumes ks: "\<forall>k\<in>set ks. isWord k"
  shows "\<not> (wordBefore pre \<and> wordBefore s) \<Longrightarrow>
    replaceAll_scan (re_keywordsThenSpace ks) (\<lambda>m. []) pre s 0
      = concat (withoutWords ks False (splitWords s))"
proof (induction s arbitrary: pre rule: length_induct)
  case (1 s)
  show ?case
  proof (cases "wordBefore s")
    case False
    show ?thesis
    proof (cases s)
      case Nil
      then show ?thesis by simp
    next
      case (Cons c rest)
      with False have c: "\<not> isWordChar c" by (simp add: wordBefore_def)
      then have "[c] \<notin> set ks" using ks by (auto simp: isWord_def)
      moreover have "replaceAll_scan (re_keywordsThenSpace ks) (\<lambda>m. []) (c # pre) rest 0
          = concat (withoutWords ks False (splitWords rest))"
        using 1(1) Cons c by (simp add: wordBefore_def)
      moreover have "replaceAll_scan (re_keywordsThenSpace ks) (\<lambda>m. []) pre (c # rest) 0
          = c # replaceAll_scan (re_keywordsThenSpace ks) (\<lambda>m. []) (c # pre) rest 0"
        using ks c by (rule scan_other)
      moreover have "splitWords (c # rest) = [c] # splitWords rest"
        using c by (rule splitWords_other)
      ultimately show ?thesis
        unfolding Cons by (simp del: splitWords.simps replaceAll_scan.simps)
    qed
  next
    case True
    let ?w = "takeWhile isWordChar s"
    let ?rest = "dropWhile isWordChar s"
    from True have w: "isWord ?w" and r: "\<not> wordBefore ?rest" and l: "length ?rest < length s"
      using word_and_rest by blast+
    from True 1(2) have p: "\<not> wordBefore pre" by simp
    have s: "s = ?w @ ?rest" by simp
    have sw: "splitWords s = ?w # splitWords ?rest"
      using splitWords_word [OF w r] by simp
    show ?thesis
    proof (cases "?w \<in> set ks")
      case False
      have "replaceAll_scan (re_keywordsThenSpace ks) (\<lambda>m. []) pre (?w @ ?rest) 0
          = ?w @ replaceAll_scan (re_keywordsThenSpace ks) (\<lambda>m. []) (rev ?w @ pre) ?rest 0"
        using ks w p r False by (rule scan_word_kept)
      moreover have "replaceAll_scan (re_keywordsThenSpace ks) (\<lambda>m. []) (rev ?w @ pre) ?rest 0
          = concat (withoutWords ks False (splitWords ?rest))"
        using 1(1) l r by simp
      ultimately show ?thesis
        using False sw by simp
    next
      case True
      let ?ws = "takeWhile isWhitespace ?rest"
      let ?rest' = "dropWhile isWhitespace ?rest"
      have "replaceAll_scan (re_keywordsThenSpace ks) (\<lambda>m. []) pre (?w @ ?rest) 0
          = replaceAll_scan (re_keywordsThenSpace ks) (\<lambda>m. []) (rev (?w @ ?ws) @ pre) ?rest' 0"
        using ks w p r True by (rule scan_word_dropped)
      moreover have "length ?rest' < length s"
        using l length_dropWhile_le [of isWhitespace ?rest] by simp
      moreover have "\<not> (wordBefore (rev (?w @ ?ws) @ pre) \<and> wordBefore ?rest')"
      proof (cases "?ws = []")
        case True
        have "?ws @ ?rest' = ?rest" by simp
        then have "?rest' = ?rest" unfolding True by simp
        with r show ?thesis by simp
      next
        case False
        then have "last ?ws \<in> set ?ws" by simp
        then have "isWhitespace (last ?ws)" by (metis set_takeWhileD)
        then have "\<not> isWordChar (last ?ws)" by (rule whitespace_not_word)
        moreover from False have "wordBefore (rev ?ws @ rev ?w @ pre) = isWordChar (last ?ws)"
          by (rule wordBefore_rev)
        ultimately show ?thesis by simp
      qed
      ultimately have a: "replaceAll_scan (re_keywordsThenSpace ks) (\<lambda>m. []) pre (?w @ ?rest) 0
          = concat (withoutWords ks False (splitWords ?rest'))"
        using 1(1) by simp
      have "\<not> (case ?rest' of [] \<Rightarrow> False | c # cs \<Rightarrow> isWhitespace c)"
        by (rule dropWhile_first)
      then have b: "withoutWords ks True (splitWords ?rest') = withoutWords ks False (splitWords ?rest')"
        by (rule withoutWords_afterOne)
      have "splitWords ?rest = map (\<lambda>c. [c]) ?ws @ splitWords ?rest'"
        using splitWords_whitespace [of ?ws ?rest']
        by (simp add: list_all_iff) (metis set_takeWhileD)
      then have "withoutWords ks True (splitWords ?rest) = withoutWords ks True (splitWords ?rest')"
        using withoutWords_whitespace [OF ks, of ?ws]
        by (simp add: list_all_iff) (metis set_takeWhileD)
      with a b True sw show ?thesis
        by simp
    qed
  qed
qed

text \<open>Replacing the matches of the expression by nothing leaves the text without the two words.\<close>

lemma replaceAll_storage_specifiers:
  "replaceAll (re_keywordsThenSpace [''static'', ''mutable'']) (\<lambda>m. []) t = withoutStorageSpecifiers t"
proof -
  have "\<forall>k\<in>set [''static'', ''mutable'']. isWord k"
    by (simp add: isWord_def isWordChar_def)
  then show ?thesis
    unfolding replaceAll_def withoutStorageSpecifiers_def
    by (rule scan_words) (simp add: wordBefore_def)
qed

text \<open>
  C8: the parameter of the setter that \<^verbatim>\<open>Setter.create\<close> makes is the member's type text,
  without \<^verbatim>\<open>static\<close> and \<^verbatim>\<open>mutable\<close>, and the parameter name when the member is primitive or
  a pointer, and \<^verbatim>\<open>const\<close>, that type text, \<^verbatim>\<open>&\<close> and the parameter name otherwise. The
  setter is made exactly when \<^verbatim>\<open>isPrimitive()\<close> resolves.
\<close>

theorem C8_setter_parameter:
  "map_option parameter (Setter_create setterName resolveTypes resolveThisType mv)
     = map_option
         (\<lambda>primitive. if primitive \<or> isPointer mv then typeText mv @ ''value''
                       else ''const '' @ typeText mv @ ''&'' @ ''value'')
         (isPrimitive resolveTypes resolveThisType mv)"
  by (auto simp: Setter_create_def typeText_def Let_def replaceAll_storage_specifiers split: option.splits)

text \<open>
  The members of the struct above, with type resolution across files switched off: the
  \<^verbatim>\<open>int\<close> is passed by value, the \<^verbatim>\<open>std::string\<close> by reference to const, the pointer by
  value though its type is not primitive, the static \<^verbatim>\<open>long\<close> by value and without
  \<^verbatim>\<open>static\<close>, the mutable \<^verbatim>\<open>std::string\<close> by reference to const and without \<^verbatim>\<open>mutable\<close>.
\<close>

theorem C8_setter_parameter_examples:
  "map_option parameter (Setter_create setterOf False (\<lambda>n. None) (widgetField ''count'' 1 8 13))
     = Some ''int value''
   \<and> map_option parameter (Setter_create setterOf False (\<lambda>n. None) (widgetField ''label'' 2 16 21))
     = Some ''const std::string &value''
   \<and> map_option parameter (Setter_create setterOf False (\<lambda>n. None) (widgetField ''next'' 3 12 16))
     = Some ''Widget* value''
   \<and> leadingText (widgetField ''total'' 4 16 21) = ''static long ''
   \<and> map_option parameter (Setter_create setterOf False (\<lambda>n. None) (widgetField ''total'' 4 16 21))
     = Some ''long value''
   \<and> leadingText (widgetField ''note'' 5 24 28) = ''mutable std::string ''
   \<and> map_option parameter (Setter_create setterOf False (\<lambda>n. None) (widgetField ''note'' 5 24 28))
     = Some ''const std::string &value''"
proof -
  have count: "isPrimitive False (\<lambda>n. None) (widgetField ''count'' 1 8 13) = Some True"
    "typeText (widgetField ''count'' 1 8 13) = ''int ''"
    by code_simp+
  have label: "isPrimitive False (\<lambda>n. None) (widgetField ''label'' 2 16 21) = Some False"
    "isPointer (widgetField ''label'' 2 16 21) = False"
    "typeText (widgetField ''label'' 2 16 21) = ''std::string ''"
    by code_simp+
  have next': "isPrimitive False (\<lambda>n. None) (widgetField ''next'' 3 12 16) = Some False"
    "isPointer (widgetField ''next'' 3 12 16) = True"
    "typeText (widgetField ''next'' 3 12 16) = ''Widget* ''"
    by code_simp+
  have total: "isPrimitive False (\<lambda>n. None) (widgetField ''total'' 4 16 21) = Some True"
    "typeText (widgetField ''total'' 4 16 21) = ''long ''"
    by code_simp+
  have note': "isPrimitive False (\<lambda>n. None) (widgetField ''note'' 5 24 28) = Some False"
    "isPointer (widgetField ''note'' 5 24 28) = False"
    "typeText (widgetField ''note'' 5 24 28) = ''std::string ''"
    by code_simp+
  have lt: "leadingText (widgetField ''total'' 4 16 21) = ''static long ''"
    by code_simp
  have ln: "leadingText (widgetField ''note'' 5 24 28) = ''mutable std::string ''"
    by code_simp
  have a: "map_option parameter (Setter_create setterOf False (\<lambda>n. None) (widgetField ''count'' 1 8 13))
      = Some ''int value''"
    unfolding C8_setter_parameter count by simp
  have b: "map_option parameter (Setter_create setterOf False (\<lambda>n. None) (widgetField ''label'' 2 16 21))
      = Some ''const std::string &value''"
    unfolding C8_setter_parameter label by simp
  have c: "map_option parameter (Setter_create setterOf False (\<lambda>n. None) (widgetField ''next'' 3 12 16))
      = Some ''Widget* value''"
    unfolding C8_setter_parameter next' by simp
  have d: "map_option parameter (Setter_create setterOf False (\<lambda>n. None) (widgetField ''total'' 4 16 21))
      = Some ''long value''"
    unfolding C8_setter_parameter total by simp
  have e: "map_option parameter (Setter_create setterOf False (\<lambda>n. None) (widgetField ''note'' 5 24 28))
      = Some ''const std::string &value''"
    unfolding C8_setter_parameter note' by simp
  from a b c lt d ln e show ?thesis
    by (simp only: simp_thms)
qed

lemma setter_declaration_examples:
  "map_option Setter_declaration (Setter_create setterOf False (\<lambda>n. None) (widgetField ''total'' 4 16 21))
     = Some ''static void set_total(long value)''"
  by code_simp

subsection \<open>The search among the siblings\<close>



lemma probeAfter_miss:
  "\<forall>x\<in>set cs. definitionInTarget env doc x = None \<Longrightarrow> probeAfter env doc cs = (None, cs)"
  by (induction cs) (auto simp: definitionInTarget_def split: option.splits if_splits)





lemma probeAfter_None_asked: "fst (probeAfter env doc cs) = None \<Longrightarrow> snd (probeAfter env doc cs) = cs"
  by (induction cs) (auto split: option.splits if_splits prod.splits)











text \<open>
  A declaration inside a class, in the tree the constructor built of the provider's
  symbols, as a CSymbol, the way the commands pass it; the provider's ranges take the
  semicolons in. Its siblings are the children of the class in the order of their ranges,
  and the sibling before it, whose definition the target document has, decides.
\<close>

lemma nested_declaration_among_its_siblings:
  "map name (siblingsOf circleEnvironment (SourceDocument circleHeader None)
                (symbol (CSymbol_new (children circleTree ! 1) circleHeader None)))
     = [''area'', ''move'', ''draw'']
   \<and> findPositionForFunctionDefinition circleEnvironment (SourceDocument circleHeader None)
        (symbol (CSymbol_new (children circleTree ! 1) circleHeader None))
        (Some (SourceDocument circleSource None))
      = (Inr (after' (Position 2 1)), [children circleTree ! 0])"
  by code_simp

text \<open>
  The function finds the declaration among its siblings by its range (line 102). A CSymbol
  whose range the constructor has moved past a semicolon has the range of no sibling:
  the index runs to the end of the list, the candidates are the last five siblings, the
  last one first and the symbol of the declaration among them, and there is none after.
  For the declaration of \<^verbatim>\<open>d\<close> as a CSymbol, only \<^verbatim>\<open>e\<close> is asked about and the position
  is the one after the definition of \<^verbatim>\<open>e\<close>, where the comment on lines 97 and 98 has the
  symbols around the declaration looked at. The theorem above says nothing of such a
  declaration.
\<close>

lemma declaration_moved_past_semicolon:
  "range' (declared ''d'' 3) = Range (Position 3 0) (Position 3 8)
   \<and> range' (symbol (CSymbol_new (declared ''d'' 3) shapesHeader None))
       = Range (Position 3 0) (Position 3 9)
   \<and> findPositionForFunctionDefinition shapesEnvironment (SourceDocument shapesHeader None)
        (symbol (CSymbol_new (declared ''d'' 3) shapesHeader None)) (Some shapesTarget)
      = (Inr (after' (Position 5 1)), [declared ''e'' 4])"
  by code_simp

subsection \<open>Positions of offsets, lengths of masked text, places of matches\<close>

lemma isBeforeOrEqual_refl: "isBeforeOrEqual p p"
  by (simp add: isBeforeOrEqual_def)

lemma isBeforeOrEqual_trans: "isBeforeOrEqual p q \<Longrightarrow> isBeforeOrEqual q r \<Longrightarrow> isBeforeOrEqual p r"
  by (auto simp: isBeforeOrEqual_def)

lemma isBefore_BeforeOrEqual_trans: "isBefore p q \<Longrightarrow> isBeforeOrEqual q r \<Longrightarrow> isBefore p r"
  by (auto simp: isBeforeOrEqual_def isBefore_def)

lemma positionAt_from_grows: "isBeforeOrEqual p (positionAt_from p t n)"
proof (induction p t n rule: positionAt_from.induct)
  case (3 p c cs n)
  have "isBeforeOrEqual p (if c = LF then Position (Suc (line p)) 0 else Position (line p) (Suc (character p)))"
    by (simp add: isBeforeOrEqual_def)
  with 3 show ?case
    by (auto intro: isBeforeOrEqual_trans simp del: isBeforeOrEqual_def)
qed (simp_all add: isBeforeOrEqual_refl)

lemma positionAt_from_step_strict:
  "isBefore p (if c = LF then Position (Suc (line p)) 0 else Position (line p) (Suc (character p)))"
  by (simp add: isBefore_def)

lemma positionAt_from_mono:
  "i \<le> j \<Longrightarrow> isBeforeOrEqual (positionAt_from p t i) (positionAt_from p t j)"
proof (induction p t i arbitrary: j rule: positionAt_from.induct)
  case (1 p n)
  then show ?case by (simp add: isBeforeOrEqual_refl)
next
  case (2 p c cs)
  then show ?case using positionAt_from_grows [of p "c # cs" j] by simp
next
  case (3 p c cs n)
  then obtain k where "j = Suc k" "n \<le> k" by (cases j) auto
  with 3 show ?case by simp
qed

lemma positionAt_from_strict:
  "i < j \<Longrightarrow> j \<le> length t \<Longrightarrow> isBefore (positionAt_from p t i) (positionAt_from p t j)"
proof (induction p t i arbitrary: j rule: positionAt_from.induct)
  case (1 p n)
  then show ?case by simp
next
  case (2 p c cs)
  then obtain k where k: "j = Suc k" by (cases j) auto
  let ?q = "if c = LF then Position (Suc (line p)) 0 else Position (line p) (Suc (character p))"
  have "isBefore p ?q" by (rule positionAt_from_step_strict)
  moreover have "isBeforeOrEqual ?q (positionAt_from ?q cs k)" by (rule positionAt_from_grows)
  ultimately show ?case using k by (auto intro: isBefore_BeforeOrEqual_trans)
next
  case (3 p c cs n)
  then obtain k where "j = Suc k" "n < k" "k \<le> length cs" by (cases j) auto
  with 3 show ?case by simp
qed

lemma positionAt_from_offsetAt_in:
  "isBeforeOrEqual (positionAt_from (Position l0 c0) t (offsetAt_in t l c))
     (Position (l0 + l) (if l = 0 then c0 + c else c))"
proof (induction t l c arbitrary: l0 c0 rule: offsetAt_in.induct)
  case (1 l c)
  then show ?case by (auto simp: isBeforeOrEqual_def)
next
  case (2 x xs)
  then show ?case by (simp add: isBeforeOrEqual_def)
next
  case (3 x xs c)
  show ?case
  proof (cases "x = LF")
    case True
    then show ?thesis by (simp add: isBeforeOrEqual_def)
  next
    case False
    with 3 [of l0 "Suc c0"] show ?thesis by simp
  qed
next
  case (4 x xs l c)
  show ?case
  proof (cases "x = LF")
    case True
    with 4(1) [of "Suc l0" 0] show ?thesis
      by (auto simp: isBeforeOrEqual_def split: if_splits)
  next
    case False
    with 4(2) [of l0 "Suc c0"] show ?thesis
      by (auto simp: isBeforeOrEqual_def split: if_splits)
  qed
qed

lemma positionAt_offsetAt: "isBeforeOrEqual (positionAt doc (offsetAt doc p)) p"
  using positionAt_from_offsetAt_in [of 0 0 "doc_text doc" "line p" "character p"]
  by (cases p) (auto simp: positionAt_def offsetAt_def isBeforeOrEqual_def split: if_splits)

lemma positionAt_before_offset:
  assumes "i < offsetAt doc p"
  shows "isBefore (positionAt doc i) p"
proof -
  have "offsetAt doc p \<le> length (doc_text doc)"
    by (simp add: offsetAt_def offsetAt_in_le_length)
  with assms have "isBefore (positionAt doc i) (positionAt doc (offsetAt doc p))"
    by (simp add: positionAt_def positionAt_from_strict)
  then show ?thesis
    using positionAt_offsetAt by (rule isBefore_BeforeOrEqual_trans)
qed

text \<open>Masking keeps the length.\<close>

lemma length_maskBalanced: "length (maskBalanced l r s k) = length s"
proof (induction l r s k rule: maskBalanced.induct)
  case (1 l r k)
  then show ?case by simp
next
  case (2 l r c cs k)
  have ci: "closingIndex l r d xs = Some n \<Longrightarrow> n < length xs" for d xs n
    by (induction l r d xs arbitrary: n rule: closingIndex.induct) (auto split: if_splits nat.splits)
  show ?case
  proof (cases "c = l")
    case False
    with 2 show ?thesis by simp
  next
    case True
    show ?thesis
    proof (cases "closingIndex l r 0 cs")
      case None
      with True 2 show ?thesis by simp
    next
      case (Some n)
      then have "n < length cs" by (rule ci)
      with True Some 2 show ?thesis by simp
    qed
  qed
qed

lemma startsWith_length:
  assumes "startsWith s p"
  shows "length p \<le> length s"
proof -
  from assms have "length (take (length p) s) = length p"
    unfolding startsWith_def by (rule arg_cong)
  then show ?thesis by simp
qed

lemma indexOfString_bound: "indexOfString s p = Some n \<Longrightarrow> n + length p \<le> length s"
proof (induction s p arbitrary: n rule: indexOfString.induct)
  case (1 p)
  then show ?case by (auto split: if_splits)
next
  case (2 c cs p)
  show ?case
  proof (cases "startsWith (c # cs) p")
    case True
    then have "length p \<le> length (c # cs)"
      by (rule startsWith_length)
    with True 2 show ?thesis by simp
  next
    case False
    with 2 show ?thesis by auto
  qed
qed

lemma length_maskBlockComments: "length (maskBlockComments s k) = length s"
proof (induction s k rule: maskBlockComments.induct)
  case (1 k)
  then show ?case by simp
next
  case (2 c cs k)
  show ?case
  proof (cases "startsWith (c # cs) ''/*''")
    case False
    with 2 show ?thesis by simp
  next
    case True
    show ?thesis
    proof (cases "indexOfString (drop 1 cs) ''*/''")
      case None
      with True 2 show ?thesis by simp
    next
      case (Some n)
      then have "n + 2 \<le> length (drop 1 cs)" using indexOfString_bound by fastforce
      with True Some 2 show ?thesis by simp
    qed
  qed
qed

lemma length_maskLineComments: "length (maskLineComments s k) = length s"
proof (induction s k rule: maskLineComments.induct)
  case (1 k)
  then show ?case by simp
next
  case (2 c cs k)
  show ?case
  proof (cases "startsWith (c # cs) ''//''")
    case False
    with 2 show ?thesis by simp
  next
    case True
    then have "cs \<noteq> []" by (auto simp: startsWith_def)
    moreover have "length (takeWhile (\<lambda>x. \<not> isLineTerminator x) (drop 1 cs)) \<le> length (drop 1 cs)"
      by (rule length_takeWhile_le)
    ultimately show ?thesis using True 2
      by (cases cs) (simp_all add: Let_def)
  qed
qed

lemma length_maskComments: "length (maskComments s k) = length s"
  by (simp add: maskComments_def length_maskLineComments length_maskBlockComments)

lemma closingQuote_bound: "closingQuote q s = Some n \<Longrightarrow> n < length s"
  by (induction q s arbitrary: n rule: closingQuote.induct) (auto split: if_splits)

lemma length_maskQuotes: "length (maskQuotes s k) = length s"
proof (induction s k rule: maskQuotes.induct)
  case (1 k)
  then show ?case by simp
next
  case (2 c cs k)
  show ?case
  proof (cases "c = CHR 0x22 \<or> c = CHR 0x27")
    case False
    with 2 show ?thesis by simp
  next
    case True
    show ?thesis
    proof (cases "closingQuote c cs")
      case None
      with True 2 show ?thesis by simp
    next
      case (Some n)
      then have "n < length cs" by (rule closingQuote_bound)
      with True Some 2 show ?thesis by auto
    qed
  qed
qed

lemma length_trimEnd: "length (trimEnd s) \<le> length s"
  using length_dropWhile_le [of isWhitespace "rev s"] by (simp add: trimEnd_def)

text \<open>A match lies inside the text.\<close>

lemma matchAll_scan_index:
  "(i, n) \<in> set (matchAll_scan m pre s j skip) \<Longrightarrow> j \<le> i \<and> i < j + length s"
proof (induction m pre s j skip arbitrary: i n rule: matchAll_scan.induct)
  case (1 m pre i skip)
  then show ?case by simp
next
  case (2 m pre c cs j skip)
  then show ?case
    by (fastforce split: nat.splits option.splits)
qed

lemma lastMatchIndex_bound: "lastMatchIndex m s = Some i \<Longrightarrow> i < length s"
proof -
  assume a: "lastMatchIndex m s = Some i"
  then obtain x xs where x: "matchAll m s = x # xs" "i = fst (last (x # xs))"
    by (auto simp: lastMatchIndex_def split: list.splits)
  then have "last (x # xs) \<in> set (matchAll_scan m [] s 0 0)"
    by (metis last_in_set list.discI matchAll_def)
  then have "(i, snd (last (x # xs))) \<in> set (matchAll_scan m [] s 0 0)"
    using x by simp
  then show ?thesis
    using matchAll_scan_index by fastforce
qed

subsection \<open>The true start of a symbol\<close>

lemma getText_from_origin:
  "getText doc (newRange (Position 0 0) p) = take (offsetAt doc p) (doc_text doc)"
proof -
  have "newRange (Position 0 0) p = Range (Position 0 0) p"
    by (simp add: newRange_def isBefore_def)
  moreover have "offsetAt doc (Position 0 0) = 0"
    by (cases "doc_text doc") (simp_all add: offsetAt_def)
  ultimately show ?thesis
    by (simp add: getText_def)
qed

lemma length_precedingText: "length (precedingText c) \<le> offsetAt (document c) (start (range' (symbol c)))"
proof -
  have "length (precedingText c)
      \<le> length (getText (document c) (newRange (Position 0 0) (start (range' (symbol c)))))"
    unfolding precedingText_def
    using length_trimEnd
    by (metis length_maskBalanced length_maskComments length_maskQuotes maskAngleBrackets_def)
  then show ?thesis
    by (simp add: getText_from_origin)
qed

lemma getTrueStart_cases:
  "getTrueStart c =
     (if \<not> endsWith (precedingText c) ''>'' then start (range' (symbol c))
      else (case lastMatchIndex re_template (precedingText c) of
              None \<Rightarrow> start (range' (symbol c))
            | Some 0 \<Rightarrow> start (range' (symbol c))
            | Some (Suc i) \<Rightarrow> positionAt (document c) (Suc i)))"
  by (simp add: getTrueStart_def precedingText_def Let_def)

lemma isBefore_irrefl: "\<not> isBefore p p"
  by (simp add: isBefore_def)

lemma isBefore_imp_BeforeOrEqual: "isBefore p q \<Longrightarrow> isBeforeOrEqual p q"
  by (auto simp: isBefore_def isBeforeOrEqual_def)


text \<open>Where the true start lies, and when it differs from the start of the range.\<close>

lemma getTrueStart_characterised:
  "isBeforeOrEqual (getTrueStart c) (start (range' (symbol c)))
   \<and> (isBefore (getTrueStart c) (start (range' (symbol c)))
        \<longrightarrow> endsWith (precedingText c) ''>''
            \<and> (\<exists>i. lastMatchIndex re_template (precedingText c) = Some i
                    \<and> getTrueStart c = positionAt (document c) i))"
proof -
  let ?s = "start (range' (symbol c))"
  have le: "isBeforeOrEqual (positionAt (document c) i) ?s"
    if "lastMatchIndex re_template (precedingText c) = Some i" for i
  proof -
    from that have "i < length (precedingText c)"
      by (rule lastMatchIndex_bound)
    then have "i < offsetAt (document c) ?s"
      using length_precedingText [of c] by simp
    then have "isBefore (positionAt (document c) i) ?s"
      by (rule positionAt_before_offset)
    then show ?thesis
      by (rule isBefore_imp_BeforeOrEqual)
  qed
  show ?thesis
  proof (cases "endsWith (precedingText c) ''>''")
    case False
    then show ?thesis
      by (simp add: getTrueStart_cases isBeforeOrEqual_refl isBefore_irrefl)
  next
    case True
    show ?thesis
    proof (cases "lastMatchIndex re_template (precedingText c)")
      case None
      with True show ?thesis
        by (simp add: getTrueStart_cases isBeforeOrEqual_refl isBefore_irrefl)
    next
      case (Some i)
      show ?thesis
      proof (cases i)
        case 0
        with Some True show ?thesis
          by (simp add: getTrueStart_cases isBeforeOrEqual_refl isBefore_irrefl)
      next
        case (Suc k)
        with Some True le [of i] show ?thesis
          by (simp add: getTrueStart_cases)
      qed
    qed
  qed
qed

lemma getTrueStart_bound: "isBeforeOrEqual (getTrueStart c) (start (range' (symbol c)))"
  using getTrueStart_characterised by blast




text \<open>
  When the template clause starts the document, the match is at index 0, the test
  \<^verbatim>\<open>!lastMatch?.index\<close> takes it for no match, and the true start is the start of the range.
\<close>

lemma getTrueStart_template_at_offset_0:
  "templateClausePrecedes bareIdentityFunction
   \<and> getTrueStart bareIdentityFunction = start (range' (symbol bareIdentityFunction))"
  by code_simp

subsection \<open>The range of a CSymbol\<close>

lemma document_CSymbol_new: "document (CSymbol_new s doc parentArg) = doc"
  by (simp add: CSymbol_new_def)

lemma range_CSymbol_fields:
  "range' (CSymbol_fields doc p s)
     = rangeWith (range' s) (start (range' s)) (util_getEndOfStatement doc (end' (range' s)))"
  by (induction doc p s rule: CSymbol_fields.induct) simp_all

lemma selectionRange_CSymbol_fields: "selectionRange (CSymbol_fields doc p s) = selectionRange s"
  by (induction doc p s rule: CSymbol_fields.induct) simp_all

lemma not_isBefore_if: "isBeforeOrEqual a b \<Longrightarrow> \<not> isBefore b a"
  by (auto simp: isBefore_def isBeforeOrEqual_def)

lemma newRange_ordered: "isBeforeOrEqual a b \<Longrightarrow> newRange a b = Range a b"
  by (simp add: newRange_def not_isBefore_if)

lemma range_CSymbol_new:
  assumes "isBeforeOrEqual (start (range' s)) (end' (range' s))"
  shows "range' (symbol (CSymbol_new s doc parentArg))
     = Range (start (range' s)) (getEndOfStatement doc (end' (range' s)))"
proof -
  have "isBeforeOrEqual (start (range' s)) (getEndOfStatement doc (end' (range' s)))"
    using assms getEndOfStatement_after by (rule isBeforeOrEqual_trans)
  then have "newRange (start (range' s)) (getEndOfStatement doc (end' (range' s)))
      = Range (start (range' s)) (getEndOfStatement doc (end' (range' s)))"
    by (rule newRange_ordered)
  then show ?thesis
    by (cases "range' s")
       (auto simp: CSymbol_new_def range_CSymbol_fields rangeWith_def util_getEndOfStatement_def)
qed

text \<open>
  Where no semicolon follows the end the provider reported, the CSymbol has the range
  reported, the range its symbol has among its siblings.
\<close>

lemma range_CSymbol_new_kept:
  assumes "getText doc (newRange (end' (range' s)) (translate (end' (range' s)) 0 1)) \<noteq> '';''"
  shows "range' (symbol (CSymbol_new s doc parentArg)) = range' s"
proof -
  have "getEndOfStatement doc (end' (range' s)) = end' (range' s)"
    using assms by (subst getEndOfStatement.simps) (simp add: Let_def)
  then show ?thesis
    by (cases "range' s")
       (simp add: CSymbol_new_def range_CSymbol_fields rangeWith_def util_getEndOfStatement_def)
qed

lemma getText_ends: "getText doc r = getText doc (Range (start r) (end' r))"
  by (simp add: getText_def)

lemma getText_extended:
  assumes "isBeforeOrEqual a e"
  shows "getText doc (Range a (getEndOfStatement doc e))
     = getText doc (Range a e)
       @ replicate (character (getEndOfStatement doc e) - character e) (CHR '';'')"
proof -
  have "offsetAt doc a \<le> offsetAt doc e"
    using assms by (rule offsetAt_mono)
  moreover have "offsetAt doc e \<le> offsetAt doc (getEndOfStatement doc e)"
    using getEndOfStatement_after by (rule offsetAt_mono)
  ultimately have "getText doc (Range a e) @ getText doc (Range e (getEndOfStatement doc e))
      = getText doc (Range a (getEndOfStatement doc e))"
    by (rule getText_append)
  then show ?thesis
    by (simp add: getEndOfStatement_semicolons)
qed

lemma getTrueStart_CSymbol_new:
  assumes "isBeforeOrEqual (start (range' s)) (end' (range' s))"
  shows "isBeforeOrEqual (getTrueStart (CSymbol_new s doc parentArg)) (end' (range' s))"
proof -
  have "isBeforeOrEqual (getTrueStart (CSymbol_new s doc parentArg))
      (start (range' (symbol (CSymbol_new s doc parentArg))))"
    by (rule getTrueStart_bound)
  then show ?thesis
    using assms by (auto simp: range_CSymbol_new [OF assms] intro: isBeforeOrEqual_trans)
qed

lemma end_getEndOfStatement:
  "line (util_getEndOfStatement doc (end' (range' s))) = line (end' (range' s))
   \<and> character (util_getEndOfStatement doc (end' (range' s)))
       = character (end' (range' s)) + semicolonsAfter doc s"
  using getEndOfStatement_line [of doc "end' (range' s)"]
  unfolding semicolonsAfter_def util_getEndOfStatement_def by arith

lemma text_CSymbol_new:
  assumes "isBeforeOrEqual (start (range' s)) (end' (range' s))"
  shows "text' (CSymbol_new s doc parentArg)
     = getText doc (range' s) @ replicate (semicolonsAfter doc s) (CHR '';'')"
proof -
  have "text' (CSymbol_new s doc parentArg)
      = getText doc (Range (start (range' s)) (getEndOfStatement doc (end' (range' s))))"
    unfolding text'_def document_CSymbol_new range_CSymbol_new [OF assms] ..
  also have "\<dots> = getText doc (Range (start (range' s)) (end' (range' s)))
      @ replicate (semicolonsAfter doc s) (CHR '';'')"
    unfolding semicolonsAfter_def util_getEndOfStatement_def
    using assms by (rule getText_extended)
  also have "getText doc (Range (start (range' s)) (end' (range' s))) = getText doc (range' s)"
    by (rule getText_ends [symmetric])
  finally show ?thesis .
qed

lemma getFullText_CSymbol_new:
  assumes "isBeforeOrEqual (start (range' s)) (end' (range' s))"
  shows "getFullText (CSymbol_new s doc parentArg)
     = getText doc (newRange (getTrueStart (CSymbol_new s doc parentArg)) (end' (range' s)))
       @ replicate (semicolonsAfter doc s) (CHR '';'')"
proof -
  let ?c = "CSymbol_new s doc parentArg"
  let ?e = "end' (range' s)"
  let ?E = "getEndOfStatement doc ?e"
  have ts: "isBeforeOrEqual (getTrueStart ?c) ?e"
    using assms by (rule getTrueStart_CSymbol_new)
  then have tE: "isBeforeOrEqual (getTrueStart ?c) ?E"
    using getEndOfStatement_after by (rule isBeforeOrEqual_trans)
  have "end' (range' (symbol ?c)) = ?E"
    unfolding range_CSymbol_new [OF assms] by simp
  then have "getFullText ?c = getText doc (newRange (getTrueStart ?c) ?E)"
    unfolding getFullText_def getFullRange_def document_CSymbol_new by simp
  also have "\<dots> = getText doc (Range (getTrueStart ?c) ?E)"
    unfolding newRange_ordered [OF tE] ..
  also have "\<dots> = getText doc (Range (getTrueStart ?c) ?e)
      @ replicate (semicolonsAfter doc s) (CHR '';'')"
    unfolding semicolonsAfter_def util_getEndOfStatement_def
    using ts by (rule getText_extended)
  also have "Range (getTrueStart ?c) ?e = newRange (getTrueStart ?c) ?e"
    by (rule newRange_ordered [OF ts, symmetric])
  finally show ?thesis .
qed

text \<open>
  C10: the constructor of CSymbol moves the end of the range over the semicolons that follow
  the end the provider reported, and over nothing else; the character after the new end is
  no semicolon; and \<^verbatim>\<open>text()\<close>, \<^verbatim>\<open>getFullText()\<close> and \<^verbatim>\<open>parsableText\<close> read the text up to
  the new end, those semicolons included (the last of the three with its comments masked).
\<close>

theorem C10_range_ends_after_semicolons:
  assumes "isBeforeOrEqual (start (range' s)) (end' (range' s))"
  shows
    "range' (symbol (CSymbol_new s doc parentArg))
       = Range (start (range' s)) (util_getEndOfStatement doc (end' (range' s)))
     \<and> line (util_getEndOfStatement doc (end' (range' s))) = line (end' (range' s))
     \<and> character (util_getEndOfStatement doc (end' (range' s)))
         = character (end' (range' s)) + semicolonsAfter doc s
     \<and> getText doc (Range (end' (range' s)) (end' (range' (symbol (CSymbol_new s doc parentArg)))))
         = replicate (semicolonsAfter doc s) (CHR '';'')
     \<and> getText doc (newRange (end' (range' (symbol (CSymbol_new s doc parentArg))))
                       (translate (end' (range' (symbol (CSymbol_new s doc parentArg)))) 0 1))
         \<noteq> '';''
     \<and> text' (CSymbol_new s doc parentArg)
         = getText doc (range' s) @ replicate (semicolonsAfter doc s) (CHR '';'')
     \<and> getFullText (CSymbol_new s doc parentArg)
         = getText doc (newRange (getTrueStart (CSymbol_new s doc parentArg)) (end' (range' s)))
           @ replicate (semicolonsAfter doc s) (CHR '';'')
     \<and> parsableText (CSymbol_new s doc parentArg)
         = maskComments (getText doc (range' s) @ replicate (semicolonsAfter doc s) (CHR '';'')) False"
proof -
  let ?c = "CSymbol_new s doc parentArg"
  let ?e = "end' (range' s)"
  have r: "range' (symbol ?c) = Range (start (range' s)) (util_getEndOfStatement doc ?e)"
    unfolding util_getEndOfStatement_def using assms by (rule range_CSymbol_new)
  have e: "end' (range' (symbol ?c)) = util_getEndOfStatement doc ?e"
    unfolding r by simp
  have semis: "getText doc (Range ?e (end' (range' (symbol ?c))))
      = replicate (semicolonsAfter doc s) (CHR '';'')"
    unfolding e semicolonsAfter_def util_getEndOfStatement_def
    by (rule getEndOfStatement_semicolons)
  have stop: "getText doc (newRange (end' (range' (symbol ?c)))
      (translate (end' (range' (symbol ?c))) 0 1)) \<noteq> '';''"
    unfolding e util_getEndOfStatement_def by (rule getEndOfStatement_stops)
  have t: "text' ?c = getText doc (range' s) @ replicate (semicolonsAfter doc s) (CHR '';'')"
    using assms by (rule text_CSymbol_new)
  have f: "getFullText ?c = getText doc (newRange (getTrueStart ?c) ?e)
      @ replicate (semicolonsAfter doc s) (CHR '';'')"
    using assms by (rule getFullText_CSymbol_new)
  have p: "parsableText ?c
      = maskComments (getText doc (range' s) @ replicate (semicolonsAfter doc s) (CHR '';'')) False"
    unfolding parsableText_def t ..
  from r end_getEndOfStatement [of doc s] semis stop t f p show ?thesis
    by (intro conjI) (erule conjunct1 conjunct2 | assumption)+
qed

text \<open>The theorem at the declaration \<^verbatim>\<open>void foo(int x = 5);\<close>: one semicolon is taken in.\<close>

theorem C10_range_end_witness:
  "isBeforeOrEqual (start (range' fooReported)) (end' (range' fooReported))
   \<and> semicolonsAfter fooHeader fooReported = 1
   \<and> getText fooHeader (range' fooReported) = ''void foo(int x = 5)''
   \<and> text' (CSymbol_new fooReported fooHeader None) = ''void foo(int x = 5)'' @ replicate 1 (CHR '';'')"
proof -
  have h: "isBeforeOrEqual (start (range' fooReported)) (end' (range' fooReported))"
    by code_simp
  have k: "semicolonsAfter fooHeader fooReported = 1"
    by code_simp
  have g: "getText fooHeader (range' fooReported) = ''void foo(int x = 5)''"
    by code_simp
  have "text' (CSymbol_new fooReported fooHeader None)
      = getText fooHeader (range' fooReported) @ replicate (semicolonsAfter fooHeader fooReported) (CHR '';'')"
    using C10_range_ends_after_semicolons [OF h, of fooHeader None] by blast
  then have "text' (CSymbol_new fooReported fooHeader None)
      = ''void foo(int x = 5)'' @ replicate 1 (CHR '';'')"
    unfolding k g .
  with h k g show ?thesis
    by (intro conjI)
qed

text \<open>The same for a CSymbol made of a symbol of the provider.\<close>

lemma range_CSymbol_new_provider:
  assumes "isBeforeOrEqual (start (ds_range d)) (end' (ds_range d))"
  shows "range' (symbol (CSymbol_new_provider f d doc parentArg))
     = Range (start (ds_range d)) (getEndOfStatement doc (end' (ds_range d)))"
proof -
  obtain u n dt k r sr sg par cs
    where s: "SourceSymbol_new f (doc_uri doc) (map_option symbol parentArg) d
        = SourceSymbol u n dt k r sr sg par cs"
    by (cases "SourceSymbol_new f (doc_uri doc) (map_option symbol parentArg) d") blast
  have r: "r = ds_range d"
    using range_SourceSymbol_new [of f "doc_uri doc" "map_option symbol parentArg" d] s by simp
  have "isBeforeOrEqual (start r) (getEndOfStatement doc (end' r))"
    using assms getEndOfStatement_after unfolding r by (rule isBeforeOrEqual_trans)
  then have "newRange (start r) (getEndOfStatement doc (end' r))
      = Range (start r) (getEndOfStatement doc (end' r))"
    by (rule newRange_ordered)
  then have "rangeWith r (start r) (util_getEndOfStatement doc (end' r))
      = Range (start r) (getEndOfStatement doc (end' r))"
    by (cases r) (auto simp: rangeWith_def util_getEndOfStatement_def)
  then show ?thesis
    by (simp add: CSymbol_new_provider_def s r)
qed

subsection \<open>From a declaration to a definition and back\<close>

text \<open>
  C5: the declaration \<^verbatim>\<open>void foo(int x = 5);\<close> becomes the definition text
  \<^verbatim>\<open>void foo(int x)\<close>, and the definition, written with an empty body in either brace style,
  becomes the declaration \<^verbatim>\<open>void foo(int x);\<close>: the parameter keeps its type and its name
  and loses its default value. The function has no enclosing scope, so its scope string is
  empty.
\<close>

theorem C5_declaration_round_trip:
  "(case formatDeclarationForNewDefinition fooDeclaration [LF] [] of
      None \<Rightarrow> False
    | Some d \<Rightarrow>
        d = ''void foo(int x)''
        \<and> newFunctionDeclaration (fooDefinition (d @ [LF] @ ''{'' @ [LF] @ ''}'')) = ''void foo(int x);''
        \<and> newFunctionDeclaration (fooDefinition (d @ '' {'' @ [LF] @ ''}'')) = ''void foo(int x);'')"
  by code_simp

text \<open>Without a closing parenthesis the function returns the empty string.\<close>

lemma formatDeclaration_without_closing_parenthesis:
  "formatDeclarationForNewDefinition unclosedDeclaration [LF] [] = Some []"
  by code_simp

text \<open>
  C4 is right and the code is not: \<^verbatim>\<open>paramStartIndex\<close> is \<^verbatim>\<open>indexOf(...) + 1\<close>, never \<open>-1\<close>, so
  the test for no opening parenthesis cannot hold. The macro-made declaration has no
  parenthesis after its name, and the function returns text put together from the wrong
  pieces instead of the empty string.
\<close>

theorem C4_no_opening_parenthesis_not_empty:
  "isFunctionDeclaration handlerDeclaration
   \<and> formatDeclarationForNewDefinition handlerDeclaration [LF] []
       = Some ''DECLARE_HANDLER(onClick(DECLARE_HANDLER(onClick)''"
  by code_simp

subsection \<open>The position of a new include\<close>

text \<open>
  C7 is right and the code is not: \<^verbatim>\<open>largestBlock\<close> keeps the block it has unless the new
  one compares greater, and the comparison of two Range objects never holds, so the first
  block of each kind stays. With a block of one system include before a block of two, both
  positions are the end of the first block, line 1, not the end of the larger block, line 4.
\<close>

theorem C7_first_block_not_largest:
  "findPositionForNewInclude noSymbols twoBlocks = Some (Position 1 0, Position 1 0)"
  by code_simp

end
